theory Spec2Isabelle
  imports Main
begin

text \<open>
  A model of the Spotify MCP server: the token store and its refresher, the Spotify
  client, the five tool cases with the authentication gate in front of them, and the
  OAuth callback. A handler is a function from the state before a request to its result
  and the state after it; requests are handled one after the other. What a handler
  awaits from Spotify is given by the environment, and every call of \<open>fetch\<close> is
  recorded in the state.
\<close>

section \<open>Strings and numbers as the JavaScript runtime prints them\<close>

text \<open>
  Strings are byte sequences (the UTF-8 encoding of the program's text). Numbers are
  integers: every number the handlers read is a count, an offset, a status code or a
  number of milliseconds. The text of a number is its decimal numeral, as a JavaScript
  template literal prints an integer of magnitude below \<open>10\<^sup>2\<^sup>1\<close>; fractions and larger
  magnitudes, which JavaScript prints otherwise, are outside the model.
\<close>

fun string_of_nat :: "nat \<Rightarrow> string" where
  "string_of_nat n =
     (if n < 10 then [''0123456789'' ! n]
      else string_of_nat (n div 10) @ [''0123456789'' ! (n mod 10)])"

declare string_of_nat.simps [simp del]

definition string_of_int :: "int \<Rightarrow> string" where
  "string_of_int i = (if i < 0 then CHR ''-'' # string_of_nat (nat (- i)) else string_of_nat (nat i))"

text \<open>\<open>xs.join(sep)\<close> on an array of strings.\<close>

fun join :: "string \<Rightarrow> string list \<Rightarrow> string" where
  "join sep [] = []"
| "join sep [x] = x"
| "join sep (x # y # ys) = x @ sep @ join sep (y # ys)"

text \<open>\<open>s.includes(sub)\<close>: some suffix of \<open>s\<close> starts with \<open>sub\<close>.\<close>

fun startsWith :: "string \<Rightarrow> string \<Rightarrow> bool" where
  "startsWith s [] = True"
| "startsWith [] (c # cs) = False"
| "startsWith (d # ds) (c # cs) = (d = c \<and> startsWith ds cs)"

fun includes_str :: "string \<Rightarrow> string \<Rightarrow> bool" where
  "includes_str [] sub = (sub = [])"
| "includes_str (d # ds) sub = (startsWith (d # ds) sub \<or> includes_str ds sub)"

text \<open>
  Percent-encoding. \<open>encodeURIComponent\<close> keeps the letters, the digits and
  \<open>- _ . ! ~ * ' ( )\<close>; the serialiser of \<open>URLSearchParams\<close> keeps the letters, the
  digits and \<open>* - . _\<close> and writes a space as \<open>+\<close>. Every other byte becomes \<open>%XX\<close>
  with upper-case hexadecimal digits.
\<close>

definition alphanumeric :: "char \<Rightarrow> bool" where
  "alphanumeric c =
     (c \<in> set ''ABCDEFGHIJKLMNOPQRSTUVWXYZabcdefghijklmnopqrstuvwxyz0123456789'')"

definition percent :: "char \<Rightarrow> string" where
  "percent c =
     [CHR ''%'', ''0123456789ABCDEF'' ! (of_char c div 16), ''0123456789ABCDEF'' ! (of_char c mod 16)]"

definition encodeURIComponent :: "string \<Rightarrow> string" where
  "encodeURIComponent s =
     concat (map (\<lambda>c. if alphanumeric c \<or> c \<in> set (CHR 0x27 # ''-_.!~*()'') then [c]
                       else percent c) s)"

definition formEncode :: "string \<Rightarrow> string" where
  "formEncode s =
     concat (map (\<lambda>c. if alphanumeric c \<or> c \<in> set ''*-._'' then [c]
                       else if c = CHR '' '' then ''+'' else percent c) s)"

text \<open>\<open>new URLSearchParams({...}).toString()\<close>.\<close>

definition urlSearchParams :: "(string \<times> string) list \<Rightarrow> string" where
  "urlSearchParams kvs = join ''&'' (map (\<lambda>(k, v). formEncode k @ ''='' @ formEncode v) kvs)"

section \<open>JSON values, requests and responses\<close>

text \<open>A JSON value. A number is an integer here; fractions are outside the model.\<close>

datatype json =
    JNull
  | JBool bool
  | JNum int
  | JStr string
  | JArr "json list"
  | JObj "(string \<times> json) list"

datatype authorization = Basic string string | Bearer string

datatype body = FormBody "(string \<times> string) list" | JsonBody json

text \<open>
  One call of \<open>fetch\<close>. The \<open>Authorization\<close> header is kept in structured form:
  \<open>Basic id secret\<close> stands for \<open>Basic base64(id:secret)\<close>.
\<close>

record request =
  req_url :: string
  req_method :: string
  req_authorization :: authorization
  req_contentType :: string
  req_body :: "body option"

text \<open>The objects of the Spotify Web API that the handlers read, field by field.\<close>

record token_data =
  access_token :: string
  refresh_token :: string
  expires_in :: int

record track_obj =
  track_id :: string
  track_name :: string
  track_artists :: "string list"
  track_album_name :: string
  track_album_images :: "string list"
  track_duration_ms :: int
  track_explicit :: bool
  track_uri :: string
  track_external_url :: string

record album_obj =
  album_id :: string
  album_name :: string
  album_artists :: "string list"
  album_release_date :: string
  album_total_tracks :: int
  album_uri :: string
  album_external_url :: string
  album_images :: "string list"

record artist_obj =
  artist_id :: string
  artist_name :: string
  artist_genres :: "string list"
  artist_followers_total :: int
  artist_uri :: string
  artist_external_url :: string
  artist_images :: "string list"

record playlist_obj =
  playlist_id :: string
  playlist_name :: string
  playlist_owner_display_name :: string
  playlist_tracks_total :: int
  playlist_uri :: string
  playlist_external_url :: string
  playlist_images :: "string list"

record search_response =
  sr_tracks :: "track_obj list option"
  sr_albums :: "album_obj list option"
  sr_artists :: "artist_obj list option"
  sr_playlists :: "playlist_obj list option"

text \<open>
  The body of a response, as \<open>response.json()\<close> reads it. The handlers read the parsed
  body as \<open>any\<close>; the model gives it the shapes the endpoints document. \<open>NotJson\<close> is a
  body that is empty or not JSON, on which \<open>response.json()\<close> throws a \<open>SyntaxError\<close>.
  \<open>OtherJson\<close> is JSON of another shape: where the JavaScript would go on with the
  \<open>undefined\<close> values it reads from such a body, the model has no value to go on with
  and stops the run with \<open>BadResponseShape\<close>; such runs are outside what the model
  describes.
\<close>

datatype payload =
    TokenData token_data
  | PlaylistPage "track_obj list" int
  | SavedStatus "bool list"
  | SearchResults search_response
  | OtherJson
  | NotJson

record response =
  status :: int
  statusText :: string
  bodyText :: string
  payload :: payload

definition ok :: "response \<Rightarrow> bool" where
  "ok r = (200 \<le> status r \<and> status r \<le> 299)"

section \<open>The server's state and its environment\<close>

record session =
  accessToken :: string
  refreshToken :: string
  expiresAt :: int

record pending_auth =
  sessionId :: string
  createdAt :: int

text \<open>
  The two module-level maps \<open>authSessions\<close> and \<open>pendingAuthStates\<close>, the clock that
  \<open>Date.now()\<close> reads (milliseconds), and the list of the calls of \<open>fetch\<close> made so far.
\<close>

record world =
  authSessions :: "string \<rightharpoonup> session"
  pendingAuthStates :: "string \<rightharpoonup> pending_auth"
  clock :: int
  trace :: "request list"

text \<open>
  The environment: the three configuration strings, the remote services, and the
  runtime's \<open>toLowerCase\<close>. A remote service answers a request, given the requests made
  before it, with a response and the milliseconds that passed while the handler awaited it.
\<close>

record env =
  SPOTIFY_CLIENT_ID :: string
  SPOTIFY_CLIENT_SECRET :: string
  SPOTIFY_REDIRECT_URI :: string
  upstream :: "request list \<Rightarrow> request \<Rightarrow> response \<times> nat"
  toLowerCase :: "string \<Rightarrow> string"

text \<open>
  What a handler throws: \<open>Error m\<close> is \<open>new Error(m)\<close> of the program itself,
  \<open>ZodError\<close> is the rejection of a parser, \<open>SyntaxError\<close> is the failure of
  \<open>response.json()\<close> on a body that is not JSON, and \<open>BadResponseShape\<close> ends a run on
  a JSON body of a shape the model has no values for.
\<close>

datatype error =
    Error string
  | ZodError
  | SyntaxError
  | BadResponseShape

definition SPOTIFY_API_BASE :: string where
  "SPOTIFY_API_BASE = ''https://api.spotify.com/v1''"

definition fetch :: "env \<Rightarrow> request \<Rightarrow> world \<Rightarrow> response \<times> world" where
  "fetch e rq w =
     (case upstream e (trace w) rq of
        (resp, dt) \<Rightarrow> (resp, w\<lparr>clock := clock w + int dt, trace := trace w @ [rq]\<rparr>))"

section \<open>OAuth helper functions\<close>

definition tokenRequest :: "env \<Rightarrow> (string \<times> string) list \<Rightarrow> request" where
  "tokenRequest e form =
     \<lparr>req_url = ''https://accounts.spotify.com/api/token'',
      req_method = ''POST'',
      req_authorization = Basic (SPOTIFY_CLIENT_ID e) (SPOTIFY_CLIENT_SECRET e),
      req_contentType = ''application/x-www-form-urlencoded'',
      req_body = Some (FormBody form)\<rparr>"

text \<open>The request that \<open>refreshAccessToken\<close> sends.\<close>

definition refreshRequest :: "env \<Rightarrow> string \<Rightarrow> request" where
  "refreshRequest e rt =
     tokenRequest e [(''grant_type'', ''refresh_token''), (''refresh_token'', rt)]"

definition refreshAccessToken :: "env \<Rightarrow> string \<Rightarrow> world \<Rightarrow> (error + token_data) \<times> world" where
  "refreshAccessToken e rt w =
     (case fetch e (refreshRequest e rt) w of
        (resp, w1) \<Rightarrow>
          if \<not> ok resp then (Inl (Error (''Failed to refresh token: '' @ statusText resp)), w1)
          else (case payload resp of
                  TokenData td \<Rightarrow> (Inr td, w1)
                | NotJson \<Rightarrow> (Inl SyntaxError, w1)
                | _ \<Rightarrow> (Inl BadResponseShape, w1)))"

text \<open>
  \<open>getValidAccessToken\<close> of the server. The worker's function of the same name takes the
  same steps on its key-value namespace: read the entry, compare \<open>Date.now()\<close> with
  \<open>expiresAt\<close>, post the refresh request, write the entry back.
\<close>

definition getValidAccessToken :: "env \<Rightarrow> string \<Rightarrow> world \<Rightarrow> (error + string) \<times> world" where
  "getValidAccessToken e sid w =
     (case authSessions w sid of
        None \<Rightarrow> (Inl (Error ''Not authenticated. Please authenticate with Spotify first.''), w)
      | Some session \<Rightarrow>
          if clock w \<ge> expiresAt session then
            (case refreshAccessToken e (refreshToken session) w of
               (Inl err, w1) \<Rightarrow> (Inl err, w1)
             | (Inr tokenData, w1) \<Rightarrow>
                 let session' = session\<lparr>accessToken := access_token tokenData,
                                        expiresAt := clock w1 + expires_in tokenData * 1000\<rparr>
                 in (Inr (accessToken session'),
                     w1\<lparr>authSessions := (authSessions w1)(sid \<mapsto> session')\<rparr>))
          else (Inr (accessToken session), w))"

definition exchangeCodeForToken :: "env \<Rightarrow> string \<Rightarrow> world \<Rightarrow> (error + token_data) \<times> world" where
  "exchangeCodeForToken e code w =
     (case fetch e (tokenRequest e [(''grant_type'', ''authorization_code''), (''code'', code),
                                    (''redirect_uri'', SPOTIFY_REDIRECT_URI e)]) w of
        (resp, w1) \<Rightarrow>
          if \<not> ok resp then (Inl (Error (''Failed to exchange code for token: '' @ statusText resp)), w1)
          else (case payload resp of
                  TokenData td \<Rightarrow> (Inr td, w1)
                | NotJson \<Rightarrow> (Inl SyntaxError, w1)
                | _ \<Rightarrow> (Inl BadResponseShape, w1)))"

definition scopes :: "string list" where
  "scopes =
     [''user-library-read'', ''user-library-modify'', ''user-follow-read'', ''user-follow-modify'',
      ''playlist-read-private'', ''playlist-read-collaborative'', ''playlist-modify-public'',
      ''playlist-modify-private'', ''user-read-private'', ''user-read-email'', ''user-top-read'',
      ''user-read-recently-played'']"

definition generateAuthUrl :: "env \<Rightarrow> string \<Rightarrow> string" where
  "generateAuthUrl e state =
     ''https://accounts.spotify.com/authorize?'' @
     urlSearchParams
       [(''client_id'', SPOTIFY_CLIENT_ID e),
        (''response_type'', ''code''),
        (''redirect_uri'', SPOTIFY_REDIRECT_URI e),
        (''state'', state),
        (''scope'', join '' '' scopes),
        (''show_dialog'', ''true'')]"

section \<open>The Spotify client\<close>

text \<open>What JavaScript takes for true in \<open>body ? ... : undefined\<close>.\<close>

fun truthy :: "json \<Rightarrow> bool" where
  "truthy JNull = False"
| "truthy (JBool b) = b"
| "truthy (JNum n) = (n \<noteq> 0)"
| "truthy (JStr s) = (s \<noteq> [])"
| "truthy (JArr xs) = True"
| "truthy (JObj kvs) = True"

text \<open>The request that \<open>spotifyApiRequest\<close> sends once it holds a token.\<close>

definition apiRequest :: "string \<Rightarrow> string \<Rightarrow> string \<Rightarrow> json option \<Rightarrow> request" where
  "apiRequest token endpoint method body =
     \<lparr>req_url = SPOTIFY_API_BASE @ endpoint,
      req_method = method,
      req_authorization = Bearer token,
      req_contentType = ''application/json'',
      req_body = (case body of
                    None \<Rightarrow> None
                  | Some b \<Rightarrow> if truthy b then Some (JsonBody b) else None)\<rparr>"

text \<open>
  \<open>spotifyApiRequest\<close> returns the parsed body, or \<open>None\<close> for JavaScript's \<open>null\<close> on
  a 204 response; on another 2xx response whose body is not JSON, \<open>response.json()\<close>
  throws.
\<close>

definition spotifyApiRequest ::
  "env \<Rightarrow> string \<Rightarrow> string \<Rightarrow> string \<Rightarrow> json option \<Rightarrow> world \<Rightarrow> (error + payload option) \<times> world" where
  "spotifyApiRequest e sid endpoint method body w =
     (case getValidAccessToken e sid w of
        (Inl err, w1) \<Rightarrow> (Inl err, w1)
      | (Inr token, w1) \<Rightarrow>
          (case fetch e (apiRequest token endpoint method body) w1 of
             (resp, w2) \<Rightarrow>
               if \<not> ok resp then
                 (Inl (Error (''Spotify API error: '' @ string_of_int (status resp) @ '' '' @ bodyText resp)), w2)
               else if status resp = 204 then (Inr None, w2)
               else (case payload resp of
                       NotJson \<Rightarrow> (Inl SyntaxError, w2)
                     | p \<Rightarrow> (Inr (Some p), w2))))"

section \<open>Tool arguments and their parsers\<close>

text \<open>
  The arguments of a tool call are a JSON object, read here as a map from property names
  to values. Each zod parser either yields the typed arguments or throws a \<open>ZodError\<close>.
\<close>

type_synonym arguments = "string \<rightharpoonup> json"

datatype item_type = Track | Album | Artist | Playlist | Show | Episode

fun item_type_name :: "item_type \<Rightarrow> string" where
  "item_type_name Track = ''track''"
| "item_type_name Album = ''album''"
| "item_type_name Artist = ''artist''"
| "item_type_name Playlist = ''playlist''"
| "item_type_name Show = ''show''"
| "item_type_name Episode = ''episode''"

text \<open>\<open>z.enum(["track", "album", "artist", "playlist", "show", "episode"])\<close>\<close>

definition z_item_type :: "json \<Rightarrow> item_type option" where
  "z_item_type j =
     (case j of
        JStr s \<Rightarrow>
          if s = ''track'' then Some Track
          else if s = ''album'' then Some Album
          else if s = ''artist'' then Some Artist
          else if s = ''playlist'' then Some Playlist
          else if s = ''show'' then Some Show
          else if s = ''episode'' then Some Episode
          else None
      | _ \<Rightarrow> None)"

definition z_string :: "json \<Rightarrow> string option" where
  "z_string j = (case j of JStr s \<Rightarrow> Some s | _ \<Rightarrow> None)"

text \<open>\<open>z.number().max(m)\<close>; \<open>z_number None\<close> is \<open>z.number()\<close>.\<close>

definition z_number :: "int option \<Rightarrow> json \<Rightarrow> int option" where
  "z_number mx j =
     (case j of
        JNum n \<Rightarrow> (case mx of None \<Rightarrow> Some n | Some m \<Rightarrow> if n \<le> m then Some n else None)
      | _ \<Rightarrow> None)"

fun z_array :: "(json \<Rightarrow> 'a option) \<Rightarrow> json \<Rightarrow> 'a list option" where
  "z_array p (JArr xs) = (if list_all (\<lambda>x. p x \<noteq> None) xs then Some (map (\<lambda>x. the (p x)) xs) else None)"
| "z_array p _ = None"

text \<open>
  \<open>.optional()\<close>: an absent property is accepted and read as \<open>undefined\<close>
  (\<open>Some None\<close>); a present one must satisfy the inner parser; \<open>None\<close> is rejection.
\<close>

definition z_optional :: "(json \<Rightarrow> 'a option) \<Rightarrow> json option \<Rightarrow> 'a option option" where
  "z_optional p v =
     (case v of
        None \<Rightarrow> Some None
      | Some j \<Rightarrow> (case p j of None \<Rightarrow> None | Some x \<Rightarrow> Some (Some x)))"

definition z_required :: "(json \<Rightarrow> 'a option) \<Rightarrow> json option \<Rightarrow> 'a option" where
  "z_required p v = (case v of None \<Rightarrow> None | Some j \<Rightarrow> p j)"

record library_args =
  itemType :: item_type
  itemId :: string

record fetch_tracks_args =
  playlistId :: string
  arg_offset :: "int option"
  arg_limit :: "int option"

record search_args =
  query :: string
  types :: "item_type list option"
  search_limit :: "int option"
  market :: "string option"

definition addToLibraryParser :: "arguments \<Rightarrow> error + library_args" where
  "addToLibraryParser a =
     (case (z_required z_item_type (a ''itemType''), z_required z_string (a ''itemId'')) of
        (Some t, Some i) \<Rightarrow> Inr \<lparr>itemType = t, itemId = i\<rparr>
      | _ \<Rightarrow> Inl ZodError)"

definition removeFromLibraryParser :: "arguments \<Rightarrow> error + library_args" where
  "removeFromLibraryParser a =
     (case (z_required z_item_type (a ''itemType''), z_required z_string (a ''itemId'')) of
        (Some t, Some i) \<Rightarrow> Inr \<lparr>itemType = t, itemId = i\<rparr>
      | _ \<Rightarrow> Inl ZodError)"

definition fetchTracksParser :: "arguments \<Rightarrow> error + fetch_tracks_args" where
  "fetchTracksParser a =
     (case (z_required z_string (a ''playlistId''),
            z_optional (z_number None) (a ''offset''),
            z_optional (z_number (Some 100)) (a ''limit'')) of
        (Some p, Some off, Some lim) \<Rightarrow> Inr \<lparr>playlistId = p, arg_offset = off, arg_limit = lim\<rparr>
      | _ \<Rightarrow> Inl ZodError)"

definition searchParser :: "arguments \<Rightarrow> error + search_args" where
  "searchParser a =
     (case (z_required z_string (a ''query''),
            z_optional (z_array z_item_type) (a ''types''),
            z_optional (z_number (Some 50)) (a ''limit''),
            z_optional z_string (a ''market'')) of
        (Some q, Some ts, Some lim, Some m) \<Rightarrow>
          Inr \<lparr>query = q, types = ts, search_limit = lim, market = m\<rparr>
      | _ \<Rightarrow> Inl ZodError)"

section \<open>Tool results\<close>

text \<open>
  The reduced projections the tools return. \<open>is_saved\<close> and \<open>image\<close> are optional:
  \<open>None\<close> is JavaScript's \<open>undefined\<close>, from \<open>savedStatus[index]\<close> past the end of the
  array and from \<open>images[0]?.url\<close> on an empty array.
\<close>

record fetched_track =
  ft_id :: string
  ft_name :: string
  ft_artists :: string
  ft_album :: string
  ft_duration_ms :: int
  ft_explicit :: bool
  is_saved :: "bool option"
  ft_uri :: string
  ft_external_url :: string

record found_track =
  st_id :: string
  st_name :: string
  st_artists :: string
  st_album :: string
  st_duration_ms :: int
  st_explicit :: bool
  st_uri :: string
  st_external_url :: string
  st_image :: "string option"

record found_album =
  sa_id :: string
  sa_name :: string
  sa_artists :: string
  sa_release_date :: string
  sa_total_tracks :: int
  sa_uri :: string
  sa_external_url :: string
  sa_image :: "string option"

record found_artist =
  sr_id :: string
  sr_name :: string
  sr_genres :: "string list"
  sr_followers :: int
  sr_uri :: string
  sr_external_url :: string
  sr_image :: "string option"

record found_playlist =
  sp_id :: string
  sp_name :: string
  sp_owner :: string
  sp_tracks_total :: int
  sp_uri :: string
  sp_external_url :: string
  sp_image :: "string option"

record search_results =
  res_tracks :: "found_track list option"
  res_albums :: "found_album list option"
  res_artists :: "found_artist list option"
  res_playlists :: "found_playlist list option"

datatype structured =
    FetchTracksContent string "fetched_track list" int
  | SearchContent string search_results

text \<open>
  A tool result: the text of its single content item, the structured content when the
  tool returns one, and whether the search widget's \<open>_meta\<close> is attached.
\<close>

record tool_result =
  content_text :: string
  structuredContent :: "structured option"
  widget_meta :: bool

definition textResult :: "string \<Rightarrow> tool_result" where
  "textResult t = \<lparr>content_text = t, structuredContent = None, widget_meta = False\<rparr>"

section \<open>The five tool cases\<close>

text \<open>\<open>x || d\<close> on an optional number: \<open>undefined\<close> and \<open>0\<close> are falsy.\<close>

definition num_or :: "int option \<Rightarrow> int \<Rightarrow> int" where
  "num_or x d = (case x of None \<Rightarrow> d | Some n \<Rightarrow> if n = 0 then d else n)"

text \<open>\<open>x || d\<close> on an optional string: \<open>undefined\<close> and the empty string are falsy.\<close>

definition str_or :: "string option \<Rightarrow> string \<Rightarrow> string" where
  "str_or x d = (case x of None \<Rightarrow> d | Some s \<Rightarrow> if s = [] then d else s)"

text \<open>\<open>x || d\<close> on an optional array: only \<open>undefined\<close> is falsy.\<close>

definition arr_or :: "'a list option \<Rightarrow> 'a list \<Rightarrow> 'a list" where
  "arr_or x d = (case x of None \<Rightarrow> d | Some xs \<Rightarrow> xs)"

text \<open>\<open>xs[i]\<close> on an array: \<open>undefined\<close> past the end.\<close>

definition at_index :: "'a list \<Rightarrow> nat \<Rightarrow> 'a option" where
  "at_index xs i = (if i < length xs then Some (xs ! i) else None)"

text \<open>
  The \<open>switch (args.itemType)\<close> of \<open>add_to_library\<close> and of \<open>remove_from_library\<close>
  (the two are the same text).
\<close>

fun libraryEndpoint :: "item_type \<Rightarrow> error + string" where
  "libraryEndpoint Track = Inr ''/me/tracks''"
| "libraryEndpoint Album = Inr ''/me/albums''"
| "libraryEndpoint Artist = Inr ''/me/following?type=artist''"
| "libraryEndpoint Show = Inr ''/me/shows''"
| "libraryEndpoint Episode = Inr ''/me/episodes''"
| "libraryEndpoint t = Inl (Error (''Unsupported item type: '' @ item_type_name t))"

definition add_to_library :: "env \<Rightarrow> string \<Rightarrow> arguments \<Rightarrow> world \<Rightarrow> (error + tool_result) \<times> world" where
  "add_to_library e sid a w =
     (case addToLibraryParser a of
        Inl err \<Rightarrow> (Inl err, w)
      | Inr args \<Rightarrow>
          let ids = [itemId args] in
          (case libraryEndpoint (itemType args) of
             Inl err \<Rightarrow> (Inl err, w)
           | Inr endpoint \<Rightarrow>
               (case spotifyApiRequest e sid endpoint ''PUT'' (Some (JObj [(''ids'', JArr (map JStr ids))])) w of
                  (Inl err, w1) \<Rightarrow> (Inl err, w1)
                | (Inr _, w1) \<Rightarrow>
                    (Inr (textResult (''Successfully added '' @ item_type_name (itemType args) @
                                      '' to your library.'')), w1))))"

definition remove_from_library :: "env \<Rightarrow> string \<Rightarrow> arguments \<Rightarrow> world \<Rightarrow> (error + tool_result) \<times> world" where
  "remove_from_library e sid a w =
     (case removeFromLibraryParser a of
        Inl err \<Rightarrow> (Inl err, w)
      | Inr args \<Rightarrow>
          let ids = [itemId args] in
          (case libraryEndpoint (itemType args) of
             Inl err \<Rightarrow> (Inl err, w)
           | Inr endpoint \<Rightarrow>
               (case spotifyApiRequest e sid endpoint ''DELETE'' (Some (JObj [(''ids'', JArr (map JStr ids))])) w of
                  (Inl err, w1) \<Rightarrow> (Inl err, w1)
                | (Inr _, w1) \<Rightarrow>
                    (Inr (textResult (''Successfully removed '' @ item_type_name (itemType args) @
                                      '' from your library.'')), w1))))"

text \<open>
  The three endpoint strings that the handlers build with template literals:
  \<^verbatim>\<open>/playlists/${playlistId}/tracks?offset=${offset}&limit=${limit}\<close>,
  \<^verbatim>\<open>/me/tracks/contains?ids=${trackIds.join(",")}\<close> and
  \<^verbatim>\<open>/search?q=${encodeURIComponent(query)}&type=${types.join(",")}&limit=${limit}&market=${market}\<close>.
\<close>

definition playlistTracksEndpoint :: "string \<Rightarrow> int \<Rightarrow> int \<Rightarrow> string" where
  "playlistTracksEndpoint pid offset limit =
     ''/playlists/'' @ pid @ ''/tracks?offset='' @ string_of_int offset @
     ''&limit='' @ string_of_int limit"

definition containsEndpoint :: "string list \<Rightarrow> string" where
  "containsEndpoint trackIds = ''/me/tracks/contains?ids='' @ join '','' trackIds"

definition searchEndpoint :: "string \<Rightarrow> item_type list \<Rightarrow> int \<Rightarrow> string \<Rightarrow> string" where
  "searchEndpoint q ts limit mkt =
     ''/search?q='' @ encodeURIComponent q @ ''&type='' @ join '','' (map item_type_name ts) @
     ''&limit='' @ string_of_int limit @ ''&market='' @ mkt"

text \<open>The callback of \<open>data.items.map((item, index) => ...)\<close> in \<open>fetch_tracks\<close>.\<close>

definition fetchedTrack :: "bool list \<Rightarrow> nat \<times> track_obj \<Rightarrow> fetched_track" where
  "fetchedTrack savedStatus p =
     (case p of (index, item) \<Rightarrow>
        \<lparr>ft_id = track_id item,
         ft_name = track_name item,
         ft_artists = join '', '' (track_artists item),
         ft_album = track_album_name item,
         ft_duration_ms = track_duration_ms item,
         ft_explicit = track_explicit item,
         is_saved = at_index savedStatus index,
         ft_uri = track_uri item,
         ft_external_url = track_external_url item\<rparr>)"

definition fetch_tracks :: "env \<Rightarrow> string \<Rightarrow> arguments \<Rightarrow> world \<Rightarrow> (error + tool_result) \<times> world" where
  "fetch_tracks e sid a w =
     (case fetchTracksParser a of
        Inl err \<Rightarrow> (Inl err, w)
      | Inr args \<Rightarrow>
          (case spotifyApiRequest e sid
                  (playlistTracksEndpoint (playlistId args) (num_or (arg_offset args) 0)
                     (num_or (arg_limit args) 100))
                  ''GET'' None w of
             (Inl err, w1) \<Rightarrow> (Inl err, w1)
           | (Inr (Some (PlaylistPage items total')), w1) \<Rightarrow>
               let trackIds = map track_id items in
               (case spotifyApiRequest e sid (containsEndpoint trackIds) ''GET'' None w1 of
                  (Inl err, w2) \<Rightarrow> (Inl err, w2)
                | (Inr (Some (SavedStatus savedStatus)), w2) \<Rightarrow>
                    let tracks = map (fetchedTrack savedStatus) (enumerate 0 items) in
                    (Inr \<lparr>content_text = ''Loaded '' @ string_of_nat (length tracks) @ '' tracks from playlist.'',
                          structuredContent = Some (FetchTracksContent (playlistId args) tracks total'),
                          widget_meta = False\<rparr>, w2)
                | (Inr _, w2) \<Rightarrow> (Inl BadResponseShape, w2))
           | (Inr _, w1) \<Rightarrow> (Inl BadResponseShape, w1)))"

text \<open>\<open>images[0]?.url\<close>\<close>

definition firstImage :: "string list \<Rightarrow> string option" where
  "firstImage images = (case images of [] \<Rightarrow> None | u # _ \<Rightarrow> Some u)"

definition foundTrack :: "track_obj \<Rightarrow> found_track" where
  "foundTrack track =
     \<lparr>st_id = track_id track,
      st_name = track_name track,
      st_artists = join '', '' (track_artists track),
      st_album = track_album_name track,
      st_duration_ms = track_duration_ms track,
      st_explicit = track_explicit track,
      st_uri = track_uri track,
      st_external_url = track_external_url track,
      st_image = firstImage (track_album_images track)\<rparr>"

definition foundAlbum :: "album_obj \<Rightarrow> found_album" where
  "foundAlbum album =
     \<lparr>sa_id = album_id album,
      sa_name = album_name album,
      sa_artists = join '', '' (album_artists album),
      sa_release_date = album_release_date album,
      sa_total_tracks = album_total_tracks album,
      sa_uri = album_uri album,
      sa_external_url = album_external_url album,
      sa_image = firstImage (album_images album)\<rparr>"

definition foundArtist :: "artist_obj \<Rightarrow> found_artist" where
  "foundArtist artist =
     \<lparr>sr_id = artist_id artist,
      sr_name = artist_name artist,
      sr_genres = artist_genres artist,
      sr_followers = artist_followers_total artist,
      sr_uri = artist_uri artist,
      sr_external_url = artist_external_url artist,
      sr_image = firstImage (artist_images artist)\<rparr>"

definition foundPlaylist :: "playlist_obj \<Rightarrow> found_playlist" where
  "foundPlaylist playlist =
     \<lparr>sp_id = playlist_id playlist,
      sp_name = playlist_name playlist,
      sp_owner = playlist_owner_display_name playlist,
      sp_tracks_total = playlist_tracks_total playlist,
      sp_uri = playlist_uri playlist,
      sp_external_url = playlist_external_url playlist,
      sp_image = firstImage (playlist_images playlist)\<rparr>"

text \<open>\<open>Object.values(results).flat().length\<close>\<close>

definition resultCount :: "search_results \<Rightarrow> nat" where
  "resultCount r =
     (case res_tracks r of None \<Rightarrow> 0 | Some xs \<Rightarrow> length xs) +
     (case res_albums r of None \<Rightarrow> 0 | Some xs \<Rightarrow> length xs) +
     (case res_artists r of None \<Rightarrow> 0 | Some xs \<Rightarrow> length xs) +
     (case res_playlists r of None \<Rightarrow> 0 | Some xs \<Rightarrow> length xs)"

definition refusalText :: string where
  "refusalText =
     ''You can'' @ [CHR 0x27] @
     ''t search audiobooks on Spotify yet. Try the Spotify app, or search for something else.''"

definition search :: "env \<Rightarrow> string \<Rightarrow> arguments \<Rightarrow> world \<Rightarrow> (error + tool_result) \<times> world" where
  "search e sid a w =
     (case searchParser a of
        Inl err \<Rightarrow> (Inl err, w)
      | Inr args \<Rightarrow>
          if includes_str (toLowerCase e (query args)) ''audiobook'' then
            (Inr (textResult refusalText), w)
          else
            let types' = arr_or (types args) [Track, Album, Artist, Playlist];
                limit = num_or (search_limit args) 20;
                market' = str_or (market args) ''US''
            in
            (case spotifyApiRequest e sid (searchEndpoint (query args) types' limit market')
                    ''GET'' None w of
               (Inl err, w1) \<Rightarrow> (Inl err, w1)
             | (Inr (Some (SearchResults searchResults)), w1) \<Rightarrow>
                 let results =
                       \<lparr>res_tracks = map_option (map foundTrack) (sr_tracks searchResults),
                        res_albums = map_option (map foundAlbum) (sr_albums searchResults),
                        res_artists = map_option (map foundArtist) (sr_artists searchResults),
                        res_playlists = map_option (map foundPlaylist) (sr_playlists searchResults)\<rparr>
                 in
                 (Inr \<lparr>content_text = ''Found '' @ string_of_nat (resultCount results) @ '' results for '' @
                                [CHR 0x22] @ query args @ [CHR 0x22] @ ''.'',
                       structuredContent = Some (SearchContent (query args) results),
                       widget_meta = True\<rparr>, w1)
             | (Inr _, w1) \<Rightarrow> (Inl BadResponseShape, w1)))"

text \<open>
  The \<open>switch (toolName)\<close>: the function \<open>handleToolCall\<close> of the worker, and the body of
  the server's tool-call handler after its authentication check.
\<close>

definition handleToolCall ::
  "env \<Rightarrow> string \<Rightarrow> string \<Rightarrow> arguments option \<Rightarrow> world \<Rightarrow> (error + tool_result) \<times> world" where
  "handleToolCall e sid toolName arguments w =
     (let a = (case arguments of None \<Rightarrow> Map.empty | Some m \<Rightarrow> m) in
      if toolName = ''add_to_library'' then add_to_library e sid a w
      else if toolName = ''remove_from_library'' then remove_from_library e sid a w
      else if toolName = ''fetch_tracks'' then fetch_tracks e sid a w
      else if toolName = ''search'' then search e sid a w
      else (Inl (Error (''Unknown tool: '' @ toolName)), w))"

text \<open>
  The server's handler for a tool call. \<open>state\<close> is the value of
  \<open>crypto.randomBytes(16).toString("hex")\<close> drawn for this call.
\<close>

definition callTool ::
  "env \<Rightarrow> string \<Rightarrow> string \<Rightarrow> string \<Rightarrow> arguments option \<Rightarrow> world \<Rightarrow> (error + tool_result) \<times> world" where
  "callTool e sid state toolName arguments w =
     (if authSessions w sid = None then
        let w1 = w\<lparr>pendingAuthStates :=
                     (pendingAuthStates w)(state \<mapsto> \<lparr>sessionId = sid, createdAt = clock w\<rparr>)\<rparr>;
            authUrl = generateAuthUrl e state
        in (Inr (textResult (''Please authenticate with Spotify to use this feature. Visit: '' @ authUrl)), w1)
      else handleToolCall e sid toolName arguments w)"

section \<open>The OAuth callback\<close>

record http_reply =
  reply_status :: int
  reply_contentType :: "string option"
  reply_body :: string

text \<open>
  The three HTML pages, without the indentation and line breaks of the template
  literals.
\<close>

definition authFailedPage :: "string \<Rightarrow> string" where
  "authFailedPage err =
     ''<html><body><h1>Authentication Failed</h1><p>Error: '' @ err @
     ''</p><p>Please try again.</p></body></html>''"

definition connectedPage :: string where
  "connectedPage =
     ''<html><body><h1>Successfully Connected to Spotify!</h1>'' @
     ''<p>You can now close this window and return to your chat.</p>'' @
     ''<script>window.close();</script></body></html>''"

definition authErrorPage :: "string \<Rightarrow> string" where
  "authErrorPage msg =
     ''<html><body><h1>Authentication Error</h1><p>'' @ msg @
     ''</p><p>Please try again.</p></body></html>''"

text \<open>
  \<open>error.message\<close>. Only the message of an \<open>Error\<close> the program itself throws is
  fixed by the source; the other two stand for the runtime's own wording.
\<close>

fun message :: "error \<Rightarrow> string" where
  "message (Error m) = m"
| "message ZodError = ''ZodError''"
| "message SyntaxError = ''SyntaxError''"
| "message BadResponseShape = ''TypeError''"

text \<open>
  The loop \<open>for (const [key, value] of pendingAuthStates.entries())\<close>: every entry is
  visited once, and deleted when it is older than ten minutes.
\<close>

definition sweepPending :: "int \<Rightarrow> (string \<rightharpoonup> pending_auth) \<Rightarrow> (string \<rightharpoonup> pending_auth)" where
  "sweepPending now m =
     (\<lambda>key. case m key of
               None \<Rightarrow> None
             | Some value \<Rightarrow> if now - createdAt value > 10 * 60 * 1000 then None else Some value)"

text \<open>
  The three query parameters are \<open>None\<close> when \<open>url.searchParams.get\<close> returns \<open>null\<close>.
  A parameter that is \<open>null\<close> or the empty string is falsy.
\<close>

definition present :: "string option \<Rightarrow> bool" where
  "present p = (case p of None \<Rightarrow> False | Some s \<Rightarrow> s \<noteq> [])"

definition handleAuthCallback ::
  "env \<Rightarrow> string option \<Rightarrow> string option \<Rightarrow> string option \<Rightarrow> world \<Rightarrow> http_reply \<times> world" where
  "handleAuthCallback e code state err w =
     (if present err then
        (\<lparr>reply_status = 400, reply_contentType = Some ''text/html'',
          reply_body = authFailedPage (case err of Some x \<Rightarrow> x | None \<Rightarrow> [])\<rparr>, w)
      else
        (case (code, state) of
           (Some code', Some state') \<Rightarrow>
             if code' = [] \<or> state' = [] then
               (\<lparr>reply_status = 400, reply_contentType = None,
                 reply_body = ''Missing code or state parameter''\<rparr>, w)
             else
               (case pendingAuthStates w state' of
                  None \<Rightarrow>
                    (\<lparr>reply_status = 400, reply_contentType = None,
                      reply_body = ''Invalid or expired state parameter''\<rparr>, w)
                | Some pendingAuth \<Rightarrow>
                    let now = clock w;
                        w1 = w\<lparr>pendingAuthStates := sweepPending now (pendingAuthStates w)\<rparr>
                    in
                    (case exchangeCodeForToken e code' w1 of
                       (Inr tokenData, w2) \<Rightarrow>
                         (\<lparr>reply_status = 200, reply_contentType = Some ''text/html'',
                           reply_body = connectedPage\<rparr>,
                          w2\<lparr>authSessions :=
                                (authSessions w2)(sessionId pendingAuth \<mapsto>
                                   \<lparr>accessToken = access_token tokenData,
                                    refreshToken = refresh_token tokenData,
                                    expiresAt = clock w2 + expires_in tokenData * 1000\<rparr>),
                              pendingAuthStates := (pendingAuthStates w2)(state' := None)\<rparr>)
                     | (Inl error, w2) \<Rightarrow>
                         (\<lparr>reply_status = 500, reply_contentType = Some ''text/html'',
                           reply_body = authErrorPage (message error)\<rparr>, w2)))
         | _ \<Rightarrow>
             (\<lparr>reply_status = 400, reply_contentType = None,
               reply_body = ''Missing code or state parameter''\<rparr>, w)))"

section \<open>The calls a handler made\<close>

text \<open>
  A call of the Spotify Web API is a request whose URL starts with \<open>SPOTIFY_API_BASE\<close>;
  the other requests go to the token endpoint. \<open>apiCalls w w'\<close> lists the Web API calls
  made between the states \<open>w\<close> and \<open>w'\<close>, and \<open>newCalls w w'\<close> lists all requests.
\<close>

definition isApiCall :: "request \<Rightarrow> bool" where
  "isApiCall rq = startsWith (req_url rq) SPOTIFY_API_BASE"

definition newCalls :: "world \<Rightarrow> world \<Rightarrow> request list" where
  "newCalls w w' = drop (length (trace w)) (trace w')"

definition apiCalls :: "world \<Rightarrow> world \<Rightarrow> request list" where
  "apiCalls w w' = filter isApiCall (newCalls w w')"

text \<open>
  The Web API's request to follow (\<open>PUT\<close>) or unfollow (\<open>DELETE\<close>) the artist \<open>x\<close>:
  the endpoint \<open>/me/following?type=artist\<close> with the JSON body \<open>{"ids": [x]}\<close>.
\<close>

definition followRequest :: "string \<Rightarrow> string \<Rightarrow> string \<Rightarrow> request" where
  "followRequest token method x =
     \<lparr>req_url = ''https://api.spotify.com/v1/me/following?type=artist'',
      req_method = method,
      req_authorization = Bearer token,
      req_contentType = ''application/json'',
      req_body = Some (JsonBody (JObj [(''ids'', JArr [JStr x])]))\<rparr>"

section \<open>Sample environments and states\<close>

text \<open>
  A sample Spotify: the token endpoint grants \<open>new-token\<close> for an hour after 7 ms,
  a \<open>PUT\<close> or \<open>DELETE\<close> is answered 204, a playlist page holds two tracks, the
  saved-status call answers \<open>[true, false]\<close>, and a search finds one track.
\<close>

definition sampleTrack :: "string \<Rightarrow> track_obj" where
  "sampleTrack i =
     \<lparr>track_id = i, track_name = ''Song '' @ i, track_artists = [''A'', ''B''],
      track_album_name = ''LP'', track_album_images = [], track_duration_ms = 1000,
      track_explicit = False, track_uri = ''spotify:track:'' @ i,
      track_external_url = ''https://open.spotify.com/track/'' @ i\<rparr>"

definition reply :: "int \<Rightarrow> string \<Rightarrow> payload \<Rightarrow> response" where
  "reply st txt p = \<lparr>status = st, statusText = txt, bodyText = [], payload = p\<rparr>"

definition sampleUpstream :: "request list \<Rightarrow> request \<Rightarrow> response \<times> nat" where
  "sampleUpstream tr rq =
     (if req_url rq = ''https://accounts.spotify.com/api/token'' then
        (reply 200 ''OK'' (TokenData \<lparr>access_token = ''new-token'', refresh_token = ''refresh-2'',
                                     expires_in = 3600\<rparr>), 7)
      else if req_method rq \<noteq> ''GET'' then (reply 204 ''No Content'' OtherJson, 3)
      else if startsWith (req_url rq) (SPOTIFY_API_BASE @ ''/playlists/'') then
        (reply 200 ''OK'' (PlaylistPage [sampleTrack ''t1'', sampleTrack ''t2''] 2), 4)
      else if startsWith (req_url rq) (SPOTIFY_API_BASE @ ''/me/tracks/contains'') then
        (reply 200 ''OK'' (SavedStatus [True, False]), 2)
      else
        (reply 200 ''OK'' (SearchResults \<lparr>sr_tracks = Some [sampleTrack ''t1''], sr_albums = None,
                                         sr_artists = None, sr_playlists = None\<rparr>), 5))"

text \<open>Lower-casing of the ASCII letters, for the sample environment.\<close>

definition asciiLower :: "string \<Rightarrow> string" where
  "asciiLower s =
     map (\<lambda>c. case map_of (zip ''ABCDEFGHIJKLMNOPQRSTUVWXYZ'' ''abcdefghijklmnopqrstuvwxyz'') c of
                 None \<Rightarrow> c | Some d \<Rightarrow> d) s"

definition sampleEnv :: env where
  "sampleEnv =
     \<lparr>SPOTIFY_CLIENT_ID = ''client'', SPOTIFY_CLIENT_SECRET = ''secret'',
      SPOTIFY_REDIRECT_URI = ''http://0.0.0.0:8000/auth/callback'',
      upstream = sampleUpstream, toLowerCase = asciiLower\<rparr>"

text \<open>The same environment with a Spotify that refuses every request.\<close>

definition refusingEnv :: env where
  "refusingEnv = sampleEnv\<lparr>upstream := (\<lambda>tr rq. (reply 400 ''Bad Request'' OtherJson, 1))\<rparr>"

definition sampleSession :: session where
  "sampleSession = \<lparr>accessToken = ''old-token'', refreshToken = ''refresh-1'', expiresAt = 1000\<rparr>"

text \<open>
  A state at time \<open>t\<close>: one session, for \<open>alice\<close>, whose token expires at 1000, and one
  pending authorization, for \<open>bob\<close>, created at time 0.
\<close>

definition sampleWorld :: "int \<Rightarrow> world" where
  "sampleWorld t =
     \<lparr>authSessions = [''alice'' \<mapsto> sampleSession],
      pendingAuthStates = [''state-bob'' \<mapsto> \<lparr>sessionId = ''bob'', createdAt = 0\<rparr>],
      clock = t,
      trace = []\<rparr>"

text \<open>
  A state at time 700000 with two pending authorizations: the one for \<open>bob\<close>, created
  at time 0, is older than ten minutes; the one for \<open>carol\<close>, created at 650000, is not.
\<close>

definition sweepWorld :: world where
  "sweepWorld =
     \<lparr>authSessions = [''alice'' \<mapsto> sampleSession],
      pendingAuthStates =
        [''state-bob'' \<mapsto> \<lparr>sessionId = ''bob'', createdAt = 0\<rparr>,
         ''state-carol'' \<mapsto> \<lparr>sessionId = ''carol'', createdAt = 650000\<rparr>],
      clock = 700000,
      trace = []\<rparr>"

section \<open>The token refresher\<close>

lemma fetch_world:
  "snd (fetch e rq w) =
     w\<lparr>clock := clock w + int (snd (upstream e (trace w) rq)), trace := trace w @ [rq]\<rparr>"
  by (simp add: fetch_def split: prod.splits)

lemma refreshAccessToken_world:
  "snd (refreshAccessToken e rt w) = snd (fetch e (refreshRequest e rt) w)"
  by (auto simp: refreshAccessToken_def split: prod.splits payload.splits)

lemma refreshAccessToken_trace:
  "trace (snd (refreshAccessToken e rt w)) = trace w @ [refreshRequest e rt]"
  by (simp add: refreshAccessToken_world fetch_world)

lemma refreshAccessToken_granted:
  assumes "upstream e (trace w) (refreshRequest e rt) = (resp, dt)"
    and "ok resp" and "payload resp = TokenData td"
  shows "refreshAccessToken e rt w =
           (Inr td, w\<lparr>clock := clock w + int dt, trace := trace w @ [refreshRequest e rt]\<rparr>)"
  using assms by (simp add: refreshAccessToken_def fetch_def)

lemma refreshAccessToken_refused:
  assumes "upstream e (trace w) (refreshRequest e rt) = (resp, dt)" and "\<not> ok resp"
  shows "refreshAccessToken e rt w =
           (Inl (Error (''Failed to refresh token: '' @ statusText resp)),
            w\<lparr>clock := clock w + int dt, trace := trace w @ [refreshRequest e rt]\<rparr>)"
  using assms by (simp add: refreshAccessToken_def fetch_def)

lemma getValidAccessToken_fresh:
  assumes "authSessions w sid = Some s" and "clock w < expiresAt s"
  shows "getValidAccessToken e sid w = (Inr (accessToken s), w)"
  using assms by (simp add: getValidAccessToken_def)

lemma getValidAccessToken_refreshed:
  assumes "authSessions w sid = Some s" and "expiresAt s \<le> clock w"
    and "upstream e (trace w) (refreshRequest e (refreshToken s)) = (resp, dt)"
    and "ok resp" and "payload resp = TokenData td"
  shows "getValidAccessToken e sid w =
           (Inr (access_token td),
            w\<lparr>authSessions := (authSessions w)(sid \<mapsto>
                  s\<lparr>accessToken := access_token td,
                    expiresAt := clock w + int dt + expires_in td * 1000\<rparr>),
              clock := clock w + int dt,
              trace := trace w @ [refreshRequest e (refreshToken s)]\<rparr>)"
  using assms refreshAccessToken_granted [OF assms(3-5)]
  by (simp add: getValidAccessToken_def Let_def)

lemma getValidAccessToken_refused:
  assumes "authSessions w sid = Some s" and "expiresAt s \<le> clock w"
    and "upstream e (trace w) (refreshRequest e (refreshToken s)) = (resp, dt)"
    and "\<not> ok resp"
  shows "getValidAccessToken e sid w =
           (Inl (Error (''Failed to refresh token: '' @ statusText resp)),
            w\<lparr>clock := clock w + int dt, trace := trace w @ [refreshRequest e (refreshToken s)]\<rparr>)"
  using assms refreshAccessToken_refused [OF assms(3,4)]
  by (simp add: getValidAccessToken_def)

lemma getValidAccessToken_expired_trace:
  assumes "authSessions w sid = Some s" and "expiresAt s \<le> clock w"
  shows "trace (snd (getValidAccessToken e sid w)) = trace w @ [refreshRequest e (refreshToken s)]"
proof -
  obtain r w1 where rw: "refreshAccessToken e (refreshToken s) w = (r, w1)"
    by (cases "refreshAccessToken e (refreshToken s) w")
  have "trace w1 = trace w @ [refreshRequest e (refreshToken s)]"
    using refreshAccessToken_trace [of e "refreshToken s" w] rw by simp
  with assms rw show ?thesis
    by (cases r) (simp_all add: getValidAccessToken_def Let_def)
qed

text \<open>
  C1. For a session \<open>s\<close> stored under \<open>sid\<close>: while the clock is strictly before
  \<open>expiresAt s\<close>, \<open>getValidAccessToken\<close> returns the stored access token and leaves the
  whole state as it was, so no request is made. Once the clock has reached \<open>expiresAt s\<close>,
  the call makes exactly one request, the refresh request carrying the stored refresh
  token; and when the token endpoint answers it with a token \<open>td\<close> after \<open>dt\<close>
  milliseconds, the call returns the new access token, and the stored session has that
  access token and the expiry \<open>Date.now() + expires_in * 1000\<close>, read after the answer.
\<close>

theorem getValidAccessToken_refreshes_once:
  assumes "authSessions w sid = Some s"
  shows "(clock w < expiresAt s \<longrightarrow> getValidAccessToken e sid w = (Inr (accessToken s), w)) \<and>
         (expiresAt s \<le> clock w \<longrightarrow>
            trace (snd (getValidAccessToken e sid w)) = trace w @ [refreshRequest e (refreshToken s)] \<and>
            (\<forall>resp dt td.
               upstream e (trace w) (refreshRequest e (refreshToken s)) = (resp, dt) \<and> ok resp \<and>
               payload resp = TokenData td \<longrightarrow>
               getValidAccessToken e sid w =
                 (Inr (access_token td),
                  w\<lparr>authSessions := (authSessions w)(sid \<mapsto>
                        s\<lparr>accessToken := access_token td,
                          expiresAt := clock w + int dt + expires_in td * 1000\<rparr>),
                    clock := clock w + int dt,
                    trace := trace w @ [refreshRequest e (refreshToken s)]\<rparr>)))"
  using assms
  by (auto simp: getValidAccessToken_fresh getValidAccessToken_expired_trace
        getValidAccessToken_refreshed)

theorem getValidAccessToken_refreshes_once_witness:
  "getValidAccessToken sampleEnv ''alice'' (sampleWorld 999) = (Inr ''old-token'', sampleWorld 999) \<and>
   getValidAccessToken sampleEnv ''alice'' (sampleWorld 1000) =
     (Inr ''new-token'',
      (sampleWorld 1000)\<lparr>authSessions := [''alice'' \<mapsto>
           \<lparr>accessToken = ''new-token'', refreshToken = ''refresh-1'', expiresAt = 3601007\<rparr>],
         clock := 1007,
         trace := [refreshRequest sampleEnv ''refresh-1'']\<rparr>)"
  using getValidAccessToken_refreshes_once [of "sampleWorld 999" "''alice''" sampleSession sampleEnv]
        getValidAccessToken_refreshes_once [of "sampleWorld 1000" "''alice''" sampleSession sampleEnv]
  by (simp add: sampleWorld_def sampleSession_def sampleEnv_def sampleUpstream_def reply_def ok_def
        refreshRequest_def tokenRequest_def)

section \<open>The authentication gate\<close>

lemma callTool_authenticated:
  "authSessions w sid \<noteq> None \<Longrightarrow>
   callTool e sid state toolName arguments w = handleToolCall e sid toolName arguments w"
  by (cases "authSessions w sid") (simp_all add: callTool_def)

text \<open>The authorization URL that \<open>generateAuthUrl\<close> builds, written out.\<close>

lemma generateAuthUrl_text:
  "generateAuthUrl e state =
     ''https://accounts.spotify.com/authorize?client_id='' @ formEncode (SPOTIFY_CLIENT_ID e) @
     ''&response_type=code&redirect_uri='' @ formEncode (SPOTIFY_REDIRECT_URI e) @
     ''&state='' @ formEncode state @
     ''&scope=user-library-read+user-library-modify+user-follow-read+user-follow-modify+'' @
     ''playlist-read-private+playlist-read-collaborative+playlist-modify-public+'' @
     ''playlist-modify-private+user-read-private+user-read-email+user-top-read+'' @
     ''user-read-recently-played&show_dialog=true''"
proof -
  have k: "formEncode ''client_id'' = ''client_id''" "formEncode ''response_type'' = ''response_type''"
    "formEncode ''code'' = ''code''" "formEncode ''redirect_uri'' = ''redirect_uri''"
    "formEncode ''state'' = ''state''" "formEncode ''scope'' = ''scope''"
    "formEncode ''show_dialog'' = ''show_dialog''" "formEncode ''true'' = ''true''"
    by (simp_all add: formEncode_def alphanumeric_def)
  have sc: "formEncode (join '' '' scopes) =
     ''user-library-read+user-library-modify+user-follow-read+user-follow-modify+'' @
     ''playlist-read-private+playlist-read-collaborative+playlist-modify-public+'' @
     ''playlist-modify-private+user-read-private+user-read-email+user-top-read+'' @
     ''user-read-recently-played''"
    by (simp add: scopes_def formEncode_def alphanumeric_def)
  show ?thesis
    by (simp add: generateAuthUrl_def urlSearchParams_def k sc)
qed

text \<open>
  C2. When \<open>authSessions\<close> holds no session for the caller, the server's tool-call
  handler, whatever the tool name and the arguments, records the drawn state token in
  \<open>pendingAuthStates\<close> with the caller's session id and the current time, and returns
  the text that ends with the authorization URL built for that state: the address of
  Spotify's authorization page with the client id, the redirect URI, the state token,
  the twelve scopes and \<open>show_dialog=true\<close> as its query. Nothing else changes: no
  request is made (the trace is the same) and the session store is the same, so the
  requested tool has not run.
\<close>

theorem callTool_unauthenticated_prompts:
  assumes "authSessions w sid = None"
  shows "callTool e sid state toolName arguments w =
           (Inr (textResult
                  (''Please authenticate with Spotify to use this feature. Visit: '' @
                   ''https://accounts.spotify.com/authorize?client_id='' @ formEncode (SPOTIFY_CLIENT_ID e) @
                   ''&response_type=code&redirect_uri='' @ formEncode (SPOTIFY_REDIRECT_URI e) @
                   ''&state='' @ formEncode state @
                   ''&scope=user-library-read+user-library-modify+user-follow-read+user-follow-modify+'' @
                   ''playlist-read-private+playlist-read-collaborative+playlist-modify-public+'' @
                   ''playlist-modify-private+user-read-private+user-read-email+user-top-read+'' @
                   ''user-read-recently-played&show_dialog=true'')),
            w\<lparr>pendingAuthStates :=
                 (pendingAuthStates w)(state \<mapsto> \<lparr>sessionId = sid, createdAt = clock w\<rparr>)\<rparr>) \<and>
         trace (snd (callTool e sid state toolName arguments w)) = trace w \<and>
         authSessions (snd (callTool e sid state toolName arguments w)) = authSessions w"
  using assms by (simp add: callTool_def Let_def generateAuthUrl_text)

theorem callTool_unauthenticated_prompts_witness:
  "callTool sampleEnv ''bob'' ''5f2c'' ''search'' (Some [''query'' \<mapsto> JStr ''jazz'']) (sampleWorld 42) =
     (Inr \<lparr>content_text =
             ''Please authenticate with Spotify to use this feature. Visit: https://accounts.spotify.com/authorize?client_id=client&response_type=code&redirect_uri=http%3A%2F%2F0.0.0.0%3A8000%2Fauth%2Fcallback&state=5f2c&scope=user-library-read+user-library-modify+user-follow-read+user-follow-modify+playlist-read-private+playlist-read-collaborative+playlist-modify-public+playlist-modify-private+user-read-private+user-read-email+user-top-read+user-read-recently-played&show_dialog=true'',
           structuredContent = None, widget_meta = False\<rparr>,
      (sampleWorld 42)\<lparr>pendingAuthStates :=
         [''state-bob'' \<mapsto> \<lparr>sessionId = ''bob'', createdAt = 0\<rparr>,
          ''5f2c'' \<mapsto> \<lparr>sessionId = ''bob'', createdAt = 42\<rparr>]\<rparr>)"
  using callTool_unauthenticated_prompts [of "sampleWorld 42" "''bob''" sampleEnv "''5f2c''" "''search''"
          "Some [''query'' \<mapsto> JStr ''jazz'']"]
  by (simp add: sampleWorld_def sampleEnv_def formEncode_def alphanumeric_def percent_def
        textResult_def)

section \<open>Library tools: the item type the switch leaves out\<close>

lemma libraryParser_playlist:
  assumes "a ''itemType'' = Some (JStr ''playlist'')" and "a ''itemId'' = Some (JStr x)"
  shows "addToLibraryParser a = Inr \<lparr>itemType = Playlist, itemId = x\<rparr>"
    and "removeFromLibraryParser a = Inr \<lparr>itemType = Playlist, itemId = x\<rparr>"
  using assms
  by (simp_all add: addToLibraryParser_def removeFromLibraryParser_def z_required_def
        z_item_type_def z_string_def)

text \<open>
  C10. For a caller with a session, \<open>add_to_library\<close> and \<open>remove_from_library\<close> with
  \<open>itemType\<close> \<open>"playlist"\<close> and any item id: the parser accepts the arguments, the
  handler throws \<open>Unsupported item type: playlist\<close>, and the state is untouched, so no
  request has been made.
\<close>

theorem library_playlist_unsupported:
  assumes "authSessions w sid = Some s"
    and "a ''itemType'' = Some (JStr ''playlist'')" and "a ''itemId'' = Some (JStr x)"
  shows "addToLibraryParser a = Inr \<lparr>itemType = Playlist, itemId = x\<rparr> \<and>
         removeFromLibraryParser a = Inr \<lparr>itemType = Playlist, itemId = x\<rparr> \<and>
         callTool e sid state ''add_to_library'' (Some a) w =
           (Inl (Error ''Unsupported item type: playlist''), w) \<and>
         callTool e sid state ''remove_from_library'' (Some a) w =
           (Inl (Error ''Unsupported item type: playlist''), w)"
  using assms libraryParser_playlist [OF assms(2,3)]
  by (simp add: callTool_def handleToolCall_def add_to_library_def remove_from_library_def)

theorem library_playlist_unsupported_witness:
  "callTool sampleEnv ''alice'' ''5f2c'' ''add_to_library''
      (Some [''itemType'' \<mapsto> JStr ''playlist'', ''itemId'' \<mapsto> JStr ''37i9dQZF1DXcBWIGoYBM5M''])
      (sampleWorld 0) =
     (Inl (Error ''Unsupported item type: playlist''), sampleWorld 0) \<and>
   callTool sampleEnv ''alice'' ''5f2c'' ''remove_from_library''
      (Some [''itemType'' \<mapsto> JStr ''playlist'', ''itemId'' \<mapsto> JStr ''37i9dQZF1DXcBWIGoYBM5M''])
      (sampleWorld 0) =
     (Inl (Error ''Unsupported item type: playlist''), sampleWorld 0)"
  using library_playlist_unsupported [of "sampleWorld 0" "''alice''" sampleSession
          "[''itemType'' \<mapsto> JStr ''playlist'', ''itemId'' \<mapsto> JStr ''37i9dQZF1DXcBWIGoYBM5M'']"
          "''37i9dQZF1DXcBWIGoYBM5M''" sampleEnv "''5f2c''"]
  by (simp add: sampleWorld_def)

section \<open>What a call of the Spotify client adds to the trace\<close>

lemma startsWith_append [simp]: "startsWith (p @ s) p"
  by (induction p) simp_all

lemma isApiCall_apiRequest [simp]: "isApiCall (apiRequest token endpoint method body)"
  by (simp add: isApiCall_def apiRequest_def)

lemma isApiCall_refreshRequest [simp]: "\<not> isApiCall (refreshRequest e rt)"
  by (simp add: isApiCall_def refreshRequest_def tokenRequest_def SPOTIFY_API_BASE_def)

lemma newCalls_append: "trace w' = trace w @ xs \<Longrightarrow> newCalls w w' = xs"
  by (simp add: newCalls_def)

lemma apiCalls_append: "trace w' = trace w @ xs \<Longrightarrow> apiCalls w w' = filter isApiCall xs"
  by (simp add: apiCalls_def newCalls_append)

lemma apiCalls_same [simp]: "apiCalls w w = []"
  by (simp add: apiCalls_def newCalls_def)

text \<open>\<open>getValidAccessToken\<close> calls the token endpoint at most, never the Web API.\<close>

lemma getValidAccessToken_trace:
  "\<exists>xs. trace (snd (getValidAccessToken e sid w)) = trace w @ xs \<and> filter isApiCall xs = []"
proof (cases "authSessions w sid")
  case None
  then show ?thesis by (simp add: getValidAccessToken_def)
next
  case (Some s)
  show ?thesis
  proof (cases "clock w < expiresAt s")
    case True
    with Some show ?thesis by (simp add: getValidAccessToken_fresh)
  next
    case False
    with Some have "trace (snd (getValidAccessToken e sid w)) =
                      trace w @ [refreshRequest e (refreshToken s)]"
      by (simp add: getValidAccessToken_expired_trace)
    then show ?thesis by simp
  qed
qed

lemma spotifyApiRequest_failed:
  "getValidAccessToken e sid w = (Inl err, w1) \<Longrightarrow>
   spotifyApiRequest e sid endpoint method body w = (Inl err, w1)"
  by (simp add: spotifyApiRequest_def)

lemma spotifyApiRequest_sent:
  "getValidAccessToken e sid w = (Inr token, w1) \<Longrightarrow>
   snd (spotifyApiRequest e sid endpoint method body w) =
     snd (fetch e (apiRequest token endpoint method body) w1)"
  by (simp add: spotifyApiRequest_def split: prod.splits payload.splits)

lemma spotifyApiRequest_trace:
  "trace (snd (spotifyApiRequest e sid endpoint method body w)) =
     trace (snd (getValidAccessToken e sid w)) @
     (case fst (getValidAccessToken e sid w) of
        Inl err \<Rightarrow> []
      | Inr token \<Rightarrow> [apiRequest token endpoint method body])"
proof -
  obtain r w1 where g: "getValidAccessToken e sid w = (r, w1)"
    by (cases "getValidAccessToken e sid w")
  show ?thesis
  proof (cases r)
    case (Inl err)
    with g show ?thesis by (simp add: spotifyApiRequest_failed)
  next
    case (Inr token)
    with g show ?thesis by (simp add: spotifyApiRequest_sent fetch_world)
  qed
qed

lemma spotifyApiRequest_calls:
  "\<exists>xs. trace (snd (spotifyApiRequest e sid endpoint method body w)) = trace w @ xs \<and>
        filter isApiCall xs =
          (case fst (getValidAccessToken e sid w) of
             Inl err \<Rightarrow> []
           | Inr token \<Rightarrow> [apiRequest token endpoint method body])"
proof -
  obtain xs where xs: "trace (snd (getValidAccessToken e sid w)) = trace w @ xs"
      "filter isApiCall xs = []"
    using getValidAccessToken_trace by blast
  let ?ys = "case fst (getValidAccessToken e sid w) of
               Inl err \<Rightarrow> []
             | Inr token \<Rightarrow> [apiRequest token endpoint method body]"
  have "trace (snd (spotifyApiRequest e sid endpoint method body w)) = trace w @ (xs @ ?ys)"
    by (simp add: spotifyApiRequest_trace xs)
  moreover have "filter isApiCall (xs @ ?ys) = ?ys"
    using xs(2) by (simp split: sum.splits)
  ultimately show ?thesis by blast
qed

lemma spotifyApiRequest_apiCalls:
  "apiCalls w (snd (spotifyApiRequest e sid endpoint method body w)) =
     (case fst (getValidAccessToken e sid w) of
        Inl err \<Rightarrow> []
      | Inr token \<Rightarrow> [apiRequest token endpoint method body])"
proof -
  obtain xs where "trace (snd (spotifyApiRequest e sid endpoint method body w)) = trace w @ xs"
    and "filter isApiCall xs =
           (case fst (getValidAccessToken e sid w) of
              Inl err \<Rightarrow> []
            | Inr token \<Rightarrow> [apiRequest token endpoint method body])"
    using spotifyApiRequest_calls by blast
  then show ?thesis by (simp add: apiCalls_append)
qed

text \<open>Without a session every tool fails before it reaches \<open>fetch\<close>.\<close>

lemma handleToolCall_unauthenticated_world:
  assumes "authSessions w sid = None"
  shows "snd (handleToolCall e sid toolName arguments w) = w"
proof -
  have g: "\<And>ep m b. spotifyApiRequest e sid ep m b w =
             (Inl (Error ''Not authenticated. Please authenticate with Spotify first.''), w)"
    using assms by (simp add: spotifyApiRequest_def getValidAccessToken_def)
  show ?thesis
    by (simp add: handleToolCall_def add_to_library_def remove_from_library_def fetch_tracks_def
          search_def g Let_def split: sum.splits)
qed

lemma callTool_apiCalls:
  "apiCalls w (snd (callTool e sid state toolName arguments w)) =
   apiCalls w (snd (handleToolCall e sid toolName arguments w))"
proof (cases "authSessions w sid")
  case None
  then show ?thesis
    by (simp add: handleToolCall_unauthenticated_world callTool_def Let_def apiCalls_def newCalls_def)
next
  case (Some s)
  then show ?thesis by (simp add: callTool_authenticated)
qed

section \<open>Decimal numerals and the sample runs\<close>

lemma string_of_nat_digit: "n < 10 \<Longrightarrow> string_of_nat n = [''0123456789'' ! n]"
  by (simp add: string_of_nat.simps [of n])

lemma string_of_int_0: "string_of_int 0 = ''0''"
  by (simp add: string_of_int_def string_of_nat.simps [of 0])

lemma string_of_int_20: "string_of_int 20 = ''20''"
  by (simp add: string_of_int_def string_of_nat.simps [of 20] string_of_nat.simps [of 2])

lemma string_of_int_100: "string_of_int 100 = ''100''"
  by (simp add: string_of_int_def string_of_nat.simps [of 100] string_of_nat.simps [of 10]
        string_of_nat.simps [of "Suc 0"])

lemma sample_session: "authSessions (sampleWorld t) ''alice'' = Some sampleSession"
  by (simp add: sampleWorld_def)

lemma sample_trace: "trace (sampleWorld t) = []"
  by (simp add: sampleWorld_def)

section \<open>search\<close>

lemma handleToolCall_search:
  "handleToolCall e sid ''search'' (Some a) w = search e sid a w"
  by (simp add: handleToolCall_def)

lemma search_rejected:
  "searchParser a = Inl err \<Longrightarrow> search e sid a w = (Inl err, w)"
  by (simp add: search_def)

lemma search_audiobook:
  "searchParser a = Inr args \<Longrightarrow> includes_str (toLowerCase e (query args)) ''audiobook'' \<Longrightarrow>
   search e sid a w = (Inr (textResult refusalText), w)"
  by (simp add: search_def)

lemma searchParser_cases: "searchParser a = Inl ZodError \<or> (\<exists>args. searchParser a = Inr args)"
  by (simp add: searchParser_def split: option.splits prod.splits)

lemma searchParser_query:
  "searchParser a = Inr args \<Longrightarrow> a ''query'' = Some (JStr (query args))"
  by (auto simp: searchParser_def z_required_def z_string_def split: option.splits json.splits)

lemma searchParser_limit:
  "searchParser a = Inr args \<Longrightarrow> search_limit args = Some n \<Longrightarrow> n \<le> 50"
  by (auto simp: searchParser_def z_optional_def z_number_def
      split: option.splits json.splits if_splits)

lemma search_world:
  assumes "searchParser a = Inr args"
    and "\<not> includes_str (toLowerCase e (query args)) ''audiobook''"
  shows "snd (search e sid a w) =
           snd (spotifyApiRequest e sid
                  (searchEndpoint (query args) (arr_or (types args) [Track, Album, Artist, Playlist])
                     (num_or (search_limit args) 20) (str_or (market args) ''US''))
                  ''GET'' None w)"
  using assms
  by (simp add: search_def Let_def split: prod.splits sum.splits option.splits payload.splits)

lemma search_apiCalls:
  assumes "searchParser a = Inr args"
    and "\<not> includes_str (toLowerCase e (query args)) ''audiobook''"
  shows "apiCalls w (snd (callTool e sid state ''search'' (Some a) w)) =
           (case fst (getValidAccessToken e sid w) of
              Inl err \<Rightarrow> []
            | Inr token \<Rightarrow>
                [apiRequest token
                   (searchEndpoint (query args) (arr_or (types args) [Track, Album, Artist, Playlist])
                      (num_or (search_limit args) 20) (str_or (market args) ''US''))
                   ''GET'' None])"
  by (simp only: callTool_apiCalls handleToolCall_search search_world [OF assms]
        spotifyApiRequest_apiCalls)

text \<open>
  C3, as the code has it. Take a \<open>search\<close> call whose \<open>query\<close> is a string that, lowercased,
  contains \<open>audiobook\<close>. Whatever the other arguments are, the call changes nothing, so it
  makes no request. When the arguments pass \<open>searchParser\<close> (\<open>types\<close>, if given, an array of
  the six type names; \<open>limit\<close>, if given, a number of at most 50; \<open>market\<close>, if given, a
  string), the result is the refusal text; when they do not, the parser's error is
  thrown instead. The server's handler behaves so for a caller that has a session.
\<close>

theorem search_audiobook_refused:
  assumes "a ''query'' = Some (JStr q)" and "includes_str (toLowerCase e q) ''audiobook''"
  shows "snd (handleToolCall e sid ''search'' (Some a) w) = w \<and>
         (searchParser a \<noteq> Inl ZodError \<longrightarrow>
            fst (handleToolCall e sid ''search'' (Some a) w) = Inr (textResult refusalText)) \<and>
         (searchParser a = Inl ZodError \<longrightarrow>
            fst (handleToolCall e sid ''search'' (Some a) w) = Inl ZodError) \<and>
         (authSessions w sid \<noteq> None \<longrightarrow>
            callTool e sid state ''search'' (Some a) w = handleToolCall e sid ''search'' (Some a) w)"
proof (cases "searchParser a")
  case (Inl err)
  with searchParser_cases [of a] have "err = ZodError" by auto
  with Inl show ?thesis
    by (simp add: handleToolCall_search search_rejected callTool_authenticated)
next
  case (Inr args)
  with assms searchParser_query [OF Inr]
  have "includes_str (toLowerCase e (query args)) ''audiobook''" by simp
  with Inr show ?thesis
    by (simp add: handleToolCall_search search_audiobook callTool_authenticated)
qed

theorem search_audiobook_refused_witness:
  "handleToolCall sampleEnv ''alice'' ''search''
     (Some [''query'' \<mapsto> JStr ''Find me an AudioBook'', ''limit'' \<mapsto> JNum 5, ''market'' \<mapsto> JStr ''DE'',
            ''types'' \<mapsto> JArr [JStr ''show'']]) (sampleWorld 0) =
     (Inr (textResult refusalText), sampleWorld 0) \<and>
   callTool sampleEnv ''alice'' ''5f2c'' ''search''
     (Some [''query'' \<mapsto> JStr ''Find me an AudioBook'', ''limit'' \<mapsto> JNum 5, ''market'' \<mapsto> JStr ''DE'',
            ''types'' \<mapsto> JArr [JStr ''show'']]) (sampleWorld 0) =
     (Inr (textResult refusalText), sampleWorld 0)"
  using search_audiobook_refused [of "[''query'' \<mapsto> JStr ''Find me an AudioBook'', ''limit'' \<mapsto> JNum 5,
            ''market'' \<mapsto> JStr ''DE'', ''types'' \<mapsto> JArr [JStr ''show'']]" "''Find me an AudioBook''"
          sampleEnv "''alice''" "sampleWorld 0" "''5f2c''"]
  by (simp add: sampleEnv_def asciiLower_def searchParser_def z_required_def z_optional_def
        z_string_def z_number_def z_item_type_def sampleWorld_def prod_eq_iff)

theorem search_audiobook_counterexample:
  "includes_str (toLowerCase sampleEnv ''find me an audiobook'') ''audiobook'' \<and>
   handleToolCall sampleEnv ''alice'' ''search''
     (Some [''query'' \<mapsto> JStr ''find me an audiobook'', ''limit'' \<mapsto> JNum 51]) (sampleWorld 0) =
     (Inl ZodError, sampleWorld 0) \<and>
   callTool sampleEnv ''alice'' ''5f2c'' ''search''
     (Some [''query'' \<mapsto> JStr ''find me an audiobook'', ''limit'' \<mapsto> JNum 51]) (sampleWorld 0) =
     (Inl ZodError, sampleWorld 0)"
  by (simp add: sampleEnv_def asciiLower_def callTool_def handleToolCall_def search_def
        searchParser_def z_required_def z_optional_def z_string_def z_number_def sampleWorld_def)

lemma searchParser_limit_rejected:
  "a ''limit'' = Some (JNum n) \<Longrightarrow> 50 < n \<Longrightarrow> searchParser a = Inl ZodError"
  by (simp add: searchParser_def z_optional_def z_number_def split: option.splits prod.splits)

lemma searchRequest_url:
  "apiRequest token (searchEndpoint q ts limit mkt) ''GET'' None =
     \<lparr>req_url = ''https://api.spotify.com/v1/search?q='' @ encodeURIComponent q @
                 ''&type='' @ join '','' (map item_type_name ts) @
                 ''&limit='' @ string_of_int limit @ ''&market='' @ mkt,
      req_method = ''GET'',
      req_authorization = Bearer token,
      req_contentType = ''application/json'',
      req_body = None\<rparr>"
  by (simp add: apiRequest_def searchEndpoint_def SPOTIFY_API_BASE_def)

text \<open>
  C5, as the code has it. For a caller with a session \<open>s\<close>, take a \<open>search\<close> call whose
  query is not an audiobook query.
  \<^item> When the arguments pass the parser, every Web API request of the call is a \<open>GET\<close> of
    the search endpoint in which \<open>type\<close> is the given list, or
    \<open>track,album,artist,playlist\<close> when \<open>types\<close> is absent; \<open>limit\<close> is the given number,
    or 20 when \<open>limit\<close> is absent (or 0); and \<open>market\<close> is the given string, or \<open>US\<close>
    when \<open>market\<close> is absent (or empty). While the stored token has not expired, that
    request, under the stored token, is the one request the call makes. The limit in it
    is at most 50.
  \<^item> A limit above 50 is not cut down to 50: the parser rejects the call, which throws
    the validation error and leaves the state as it was, so no request is built.
\<close>

theorem search_request_defaults:
  assumes "authSessions w sid = Some s"
  shows "(searchParser a = Inr args \<and> \<not> includes_str (toLowerCase e (query args)) ''audiobook'' \<longrightarrow>
            (let T = (case types args of None \<Rightarrow> [Track, Album, Artist, Playlist] | Some ts \<Rightarrow> ts);
                 L = (case search_limit args of None \<Rightarrow> 20 | Some n \<Rightarrow> if n = 0 then 20 else n);
                 M = (case market args of None \<Rightarrow> ''US'' | Some m \<Rightarrow> if m = [] then ''US'' else m);
                 url = ''https://api.spotify.com/v1/search?q='' @ encodeURIComponent (query args) @
                       ''&type='' @ join '','' (map item_type_name T) @
                       ''&limit='' @ string_of_int L @ ''&market='' @ M
             in L \<le> 50 \<and>
                (\<forall>rq \<in> set (apiCalls w (snd (callTool e sid state ''search'' (Some a) w))).
                    req_method rq = ''GET'' \<and> req_url rq = url \<and> req_body rq = None) \<and>
                (clock w < expiresAt s \<longrightarrow>
                   newCalls w (snd (callTool e sid state ''search'' (Some a) w)) =
                     [\<lparr>req_url = url, req_method = ''GET'',
                       req_authorization = Bearer (accessToken s),
                       req_contentType = ''application/json'', req_body = None\<rparr>]))) \<and>
         (\<forall>n. a ''limit'' = Some (JNum n) \<and> 50 < n \<longrightarrow>
            callTool e sid state ''search'' (Some a) w = (Inl ZodError, w))"
proof (intro conjI impI allI)
  fix n
  assume "a ''limit'' = Some (JNum n) \<and> 50 < n"
  then have "searchParser a = Inl ZodError" by (simp add: searchParser_limit_rejected)
  with assms show "callTool e sid state ''search'' (Some a) w = (Inl ZodError, w)"
    by (simp add: callTool_authenticated handleToolCall_search search_rejected)
next
  assume h: "searchParser a = Inr args \<and> \<not> includes_str (toLowerCase e (query args)) ''audiobook''"
  then have p: "searchParser a = Inr args"
    and q: "\<not> includes_str (toLowerCase e (query args)) ''audiobook''" by simp_all
  let ?T = "arr_or (types args) [Track, Album, Artist, Playlist]"
  let ?L = "num_or (search_limit args) 20"
  let ?M = "str_or (market args) ''US''"
  let ?w' = "snd (callTool e sid state ''search'' (Some a) w)"
  have cap: "?L \<le> 50"
    using searchParser_limit [OF p] by (auto simp: num_or_def split: option.splits)
  have calls: "\<forall>rq \<in> set (apiCalls w ?w').
                 rq \<in> range (\<lambda>token. apiRequest token (searchEndpoint (query args) ?T ?L ?M) ''GET'' None)"
    unfolding search_apiCalls [OF p q] by (auto split: sum.splits)
  have all: "\<forall>rq \<in> set (apiCalls w ?w').
               req_method rq = ''GET'' \<and>
               req_url rq = ''https://api.spotify.com/v1/search?q='' @ encodeURIComponent (query args) @
                       ''&type='' @ join '','' (map item_type_name ?T) @
                       ''&limit='' @ string_of_int ?L @ ''&market='' @ ?M \<and>
               req_body rq = None"
    using calls by (auto simp: searchRequest_url)
  have w': "?w' = snd (spotifyApiRequest e sid (searchEndpoint (query args) ?T ?L ?M) ''GET'' None w)"
    using assms by (simp add: callTool_authenticated handleToolCall_search search_world [OF p q])
  have fresh: "clock w < expiresAt s \<longrightarrow>
                 newCalls w ?w' =
                   [\<lparr>req_url = ''https://api.spotify.com/v1/search?q='' @ encodeURIComponent (query args) @
                       ''&type='' @ join '','' (map item_type_name ?T) @
                       ''&limit='' @ string_of_int ?L @ ''&market='' @ ?M,
                     req_method = ''GET'', req_authorization = Bearer (accessToken s),
                     req_contentType = ''application/json'', req_body = None\<rparr>]"
  proof
    assume f: "clock w < expiresAt s"
    have "trace ?w' = trace w @ [apiRequest (accessToken s) (searchEndpoint (query args) ?T ?L ?M) ''GET'' None]"
      unfolding w' spotifyApiRequest_trace
      by (simp add: getValidAccessToken_fresh [OF assms f])
    then show "newCalls w ?w' =
                   [\<lparr>req_url = ''https://api.spotify.com/v1/search?q='' @ encodeURIComponent (query args) @
                       ''&type='' @ join '','' (map item_type_name ?T) @
                       ''&limit='' @ string_of_int ?L @ ''&market='' @ ?M,
                     req_method = ''GET'', req_authorization = Bearer (accessToken s),
                     req_contentType = ''application/json'', req_body = None\<rparr>]"
      by (simp add: newCalls_def searchRequest_url)
  qed
  from cap all fresh
  show "let T = (case types args of None \<Rightarrow> [Track, Album, Artist, Playlist] | Some ts \<Rightarrow> ts);
                 L = (case search_limit args of None \<Rightarrow> 20 | Some n \<Rightarrow> if n = 0 then 20 else n);
                 M = (case market args of None \<Rightarrow> ''US'' | Some m \<Rightarrow> if m = [] then ''US'' else m);
                 url = ''https://api.spotify.com/v1/search?q='' @ encodeURIComponent (query args) @
                       ''&type='' @ join '','' (map item_type_name T) @
                       ''&limit='' @ string_of_int L @ ''&market='' @ M
             in L \<le> 50 \<and>
                (\<forall>rq \<in> set (apiCalls w (snd (callTool e sid state ''search'' (Some a) w))).
                    req_method rq = ''GET'' \<and> req_url rq = url \<and> req_body rq = None) \<and>
                (clock w < expiresAt s \<longrightarrow>
                   newCalls w (snd (callTool e sid state ''search'' (Some a) w)) =
                     [\<lparr>req_url = url, req_method = ''GET'',
                       req_authorization = Bearer (accessToken s),
                       req_contentType = ''application/json'', req_body = None\<rparr>])"
    unfolding Let_def arr_or_def num_or_def str_or_def by blast
qed

lemma sample_search:
  "callTool sampleEnv ''alice'' ''5f2c'' ''search'' (Some [''query'' \<mapsto> JStr ''jazz piano''])
     (sampleWorld 0) =
   (Inr \<lparr>content_text = ''Found 1 results for '' @ [CHR 0x22] @ ''jazz piano'' @ [CHR 0x22] @ ''.'',
         structuredContent = Some (SearchContent ''jazz piano''
            \<lparr>res_tracks = Some [foundTrack (sampleTrack ''t1'')], res_albums = None,
             res_artists = None, res_playlists = None\<rparr>),
         widget_meta = True\<rparr>,
    (sampleWorld 0)\<lparr>clock := 5,
       trace := [apiRequest ''old-token''
                   ''/search?q=jazz%20piano&type=track,album,artist,playlist&limit=20&market=US''
                   ''GET'' None]\<rparr>)"
  by (simp add: callTool_def handleToolCall_def search_def searchParser_def z_required_def
        z_optional_def z_string_def z_number_def sampleEnv_def asciiLower_def Let_def num_or_def
        arr_or_def str_or_def spotifyApiRequest_def getValidAccessToken_def sampleSession_def
        fetch_def sampleWorld_def sampleUpstream_def apiRequest_def SPOTIFY_API_BASE_def
        searchEndpoint_def encodeURIComponent_def alphanumeric_def percent_def string_of_int_20
        reply_def ok_def resultCount_def string_of_nat_digit)

lemma sample_search_given:
  "callTool sampleEnv ''alice'' ''5f2c'' ''search''
     (Some [''query'' \<mapsto> JStr ''jazz piano'', ''types'' \<mapsto> JArr [JStr ''show'', JStr ''episode''],
            ''limit'' \<mapsto> JNum 7, ''market'' \<mapsto> JStr ''DE'']) (sampleWorld 0) =
   (Inr \<lparr>content_text = ''Found 1 results for '' @ [CHR 0x22] @ ''jazz piano'' @ [CHR 0x22] @ ''.'',
         structuredContent = Some (SearchContent ''jazz piano''
            \<lparr>res_tracks = Some [foundTrack (sampleTrack ''t1'')], res_albums = None,
             res_artists = None, res_playlists = None\<rparr>),
         widget_meta = True\<rparr>,
    (sampleWorld 0)\<lparr>clock := 5,
       trace := [\<lparr>req_url = ''https://api.spotify.com/v1/search?q=jazz%20piano&type=show,episode&limit=7&market=DE'',
                  req_method = ''GET'', req_authorization = Bearer ''old-token'',
                  req_contentType = ''application/json'', req_body = None\<rparr>]\<rparr>)"
  by (simp add: callTool_def handleToolCall_def search_def searchParser_def z_required_def
        z_optional_def z_string_def z_number_def z_item_type_def sampleEnv_def asciiLower_def
        Let_def num_or_def arr_or_def str_or_def spotifyApiRequest_def getValidAccessToken_def
        sampleSession_def fetch_def sampleWorld_def sampleUpstream_def apiRequest_def
        SPOTIFY_API_BASE_def searchEndpoint_def encodeURIComponent_def alphanumeric_def
        percent_def string_of_int_def reply_def ok_def resultCount_def string_of_nat_digit)

theorem search_request_defaults_witness:
  "newCalls (sampleWorld 0)
     (snd (callTool sampleEnv ''alice'' ''5f2c'' ''search''
             (Some [''query'' \<mapsto> JStr ''jazz piano'', ''types'' \<mapsto> JArr [JStr ''show'', JStr ''episode''],
                    ''limit'' \<mapsto> JNum 7, ''market'' \<mapsto> JStr ''DE'']) (sampleWorld 0))) =
     [\<lparr>req_url = ''https://api.spotify.com/v1/search?q=jazz%20piano&type=show,episode&limit=7&market=DE'',
       req_method = ''GET'', req_authorization = Bearer ''old-token'',
       req_contentType = ''application/json'', req_body = None\<rparr>] \<and>
   newCalls (sampleWorld 0)
     (snd (callTool sampleEnv ''alice'' ''5f2c'' ''search'' (Some [''query'' \<mapsto> JStr ''jazz piano''])
             (sampleWorld 0))) =
     [\<lparr>req_url = ''https://api.spotify.com/v1/search?q=jazz%20piano&type=track,album,artist,playlist&limit=20&market=US'',
       req_method = ''GET'', req_authorization = Bearer ''old-token'',
       req_contentType = ''application/json'', req_body = None\<rparr>] \<and>
   callTool sampleEnv ''alice'' ''5f2c'' ''search''
     (Some [''query'' \<mapsto> JStr ''jazz piano'', ''limit'' \<mapsto> JNum 60]) (sampleWorld 0) =
     (Inl ZodError, sampleWorld 0)"
proof -
  have r1: "newCalls (sampleWorld 0)
     (snd (callTool sampleEnv ''alice'' ''5f2c'' ''search''
             (Some [''query'' \<mapsto> JStr ''jazz piano'', ''types'' \<mapsto> JArr [JStr ''show'', JStr ''episode''],
                    ''limit'' \<mapsto> JNum 7, ''market'' \<mapsto> JStr ''DE'']) (sampleWorld 0))) =
     [\<lparr>req_url = ''https://api.spotify.com/v1/search?q=jazz%20piano&type=show,episode&limit=7&market=DE'',
       req_method = ''GET'', req_authorization = Bearer ''old-token'',
       req_contentType = ''application/json'', req_body = None\<rparr>]"
    by (simp add: sample_search_given newCalls_def sample_trace)
  have r2: "newCalls (sampleWorld 0)
     (snd (callTool sampleEnv ''alice'' ''5f2c'' ''search'' (Some [''query'' \<mapsto> JStr ''jazz piano''])
             (sampleWorld 0))) =
     [\<lparr>req_url = ''https://api.spotify.com/v1/search?q=jazz%20piano&type=track,album,artist,playlist&limit=20&market=US'',
       req_method = ''GET'', req_authorization = Bearer ''old-token'',
       req_contentType = ''application/json'', req_body = None\<rparr>]"
    by (simp add: sample_search newCalls_def sample_trace apiRequest_def SPOTIFY_API_BASE_def)
  have r3: "callTool sampleEnv ''alice'' ''5f2c'' ''search''
     (Some [''query'' \<mapsto> JStr ''jazz piano'', ''limit'' \<mapsto> JNum 60]) (sampleWorld 0) =
     (Inl ZodError, sampleWorld 0)"
    using search_request_defaults [of "sampleWorld 0" "''alice''" sampleSession
            "[''query'' \<mapsto> JStr ''jazz piano'', ''limit'' \<mapsto> JNum 60]" _ sampleEnv "''5f2c''"]
          sample_session [of 0]
    by simp
  from search_request_defaults [of "sampleWorld 0" "''alice''" sampleSession
         "[''query'' \<mapsto> JStr ''jazz piano'', ''types'' \<mapsto> JArr [JStr ''show'', JStr ''episode''],
           ''limit'' \<mapsto> JNum 7, ''market'' \<mapsto> JStr ''DE'']"
         "\<lparr>query = ''jazz piano'', types = Some [Show, Episode], search_limit = Some 7,
           market = Some ''DE''\<rparr>" sampleEnv "''5f2c''"]
       sample_session [of 0] r1 r2 r3
  show ?thesis by blast
qed

text \<open>
  A search for \<open>jazz\<close> with \<open>limit: 51\<close> by a caller with a session: the parser rejects
  it and no request is made, with limit 50 or any other.
\<close>

theorem search_request_defaults_counterexample:
  "\<not> includes_str (toLowerCase sampleEnv ''jazz'') ''audiobook'' \<and>
   callTool sampleEnv ''alice'' ''5f2c'' ''search''
     (Some [''query'' \<mapsto> JStr ''jazz'', ''limit'' \<mapsto> JNum 51]) (sampleWorld 0) =
     (Inl ZodError, sampleWorld 0) \<and>
   trace (snd (callTool sampleEnv ''alice'' ''5f2c'' ''search''
                 (Some [''query'' \<mapsto> JStr ''jazz'', ''limit'' \<mapsto> JNum 51]) (sampleWorld 0))) = []"
  by (simp add: sampleEnv_def asciiLower_def callTool_def handleToolCall_def search_def
        searchParser_def z_required_def z_optional_def z_string_def z_number_def sampleWorld_def)

section \<open>fetch_tracks\<close>

lemma handleToolCall_fetch_tracks:
  "handleToolCall e sid ''fetch_tracks'' (Some a) w = fetch_tracks e sid a w"
  by (simp add: handleToolCall_def)

lemma fetch_tracks_world:
  assumes "fetchTracksParser a = Inr args"
  shows "snd (fetch_tracks e sid a w) =
           (case spotifyApiRequest e sid
                   (playlistTracksEndpoint (playlistId args) (num_or (arg_offset args) 0)
                      (num_or (arg_limit args) 100))
                   ''GET'' None w of
              (Inr (Some (PlaylistPage items total')), w1) \<Rightarrow>
                snd (spotifyApiRequest e sid (containsEndpoint (map track_id items)) ''GET'' None w1)
            | (_, w1) \<Rightarrow> w1)"
  using assms
  by (simp add: fetch_tracks_def Let_def split: prod.splits sum.splits option.splits payload.splits)

lemma fetch_tracks_apiCalls:
  assumes "fetchTracksParser a = Inr args"
  shows "\<exists>rest.
           apiCalls w (snd (callTool e sid state ''fetch_tracks'' (Some a) w)) =
             (case fst (getValidAccessToken e sid w) of
                Inl err \<Rightarrow> []
              | Inr token \<Rightarrow>
                  [apiRequest token
                     (playlistTracksEndpoint (playlistId args) (num_or (arg_offset args) 0)
                        (num_or (arg_limit args) 100))
                     ''GET'' None]) @ rest \<and>
           (\<forall>r \<in> set rest. \<exists>token ids. r = apiRequest token (containsEndpoint ids) ''GET'' None)"
proof -
  let ?ep = "playlistTracksEndpoint (playlistId args) (num_or (arg_offset args) 0)
               (num_or (arg_limit args) 100)"
  let ?first = "case fst (getValidAccessToken e sid w) of
                  Inl err \<Rightarrow> []
                | Inr token \<Rightarrow> [apiRequest token ?ep ''GET'' None]"
  have h: "apiCalls w (snd (callTool e sid state ''fetch_tracks'' (Some a) w)) =
           apiCalls w (snd (fetch_tracks e sid a w))"
    by (simp only: callTool_apiCalls handleToolCall_fetch_tracks)
  obtain r1 w1 where c1: "spotifyApiRequest e sid ?ep ''GET'' None w = (r1, w1)"
    by (cases "spotifyApiRequest e sid ?ep ''GET'' None w")
  obtain xs where xs: "trace w1 = trace w @ xs" "filter isApiCall xs = ?first"
    using spotifyApiRequest_calls [of e sid ?ep "''GET''" None w] c1 by auto
  show ?thesis
  proof (cases "\<exists>items total'. r1 = Inr (Some (PlaylistPage items total'))")
    case True
    then obtain items total' where r1: "r1 = Inr (Some (PlaylistPage items total'))" by blast
    let ?ep2 = "containsEndpoint (map track_id items)"
    let ?second = "case fst (getValidAccessToken e sid w1) of
                     Inl err \<Rightarrow> []
                   | Inr token \<Rightarrow> [apiRequest token ?ep2 ''GET'' None]"
    have w': "snd (fetch_tracks e sid a w) = snd (spotifyApiRequest e sid ?ep2 ''GET'' None w1)"
      by (simp add: fetch_tracks_world [OF assms] c1 r1)
    obtain ys where ys: "trace (snd (spotifyApiRequest e sid ?ep2 ''GET'' None w1)) = trace w1 @ ys"
        "filter isApiCall ys = ?second"
      using spotifyApiRequest_calls [of e sid ?ep2 "''GET''" None w1] by auto
    have "trace (snd (fetch_tracks e sid a w)) = trace w @ (xs @ ys)"
      by (simp add: w' ys(1) xs(1))
    from apiCalls_append [OF this]
    have "apiCalls w (snd (fetch_tracks e sid a w)) = ?first @ ?second"
      by (simp add: xs(2) ys(2))
    moreover have "\<forall>r \<in> set ?second. \<exists>token ids.
                     r = apiRequest token (containsEndpoint ids) ''GET'' None"
      by (auto split: sum.splits)
    ultimately show ?thesis unfolding h by blast
  next
    case False
    then have "snd (fetch_tracks e sid a w) = w1"
      by (auto simp: fetch_tracks_world [OF assms] c1 split: sum.splits option.splits payload.splits)
    with apiCalls_append [OF xs(1)] xs(2)
    have "apiCalls w (snd (fetch_tracks e sid a w)) = ?first @ []" by simp
    then show ?thesis unfolding h by (metis empty_iff list.set(1))
  qed
qed

lemma sample_fetch_tracks:
  "handleToolCall sampleEnv ''alice'' ''fetch_tracks''
     (Some [''playlistId'' \<mapsto> JStr ''p1'', ''limit'' \<mapsto> JNum 0]) (sampleWorld 0) =
   (Inr \<lparr>content_text = ''Loaded 2 tracks from playlist.'',
         structuredContent = Some (FetchTracksContent ''p1''
            [fetchedTrack [True, False] (0, sampleTrack ''t1''),
             fetchedTrack [True, False] (1, sampleTrack ''t2'')] 2),
         widget_meta = False\<rparr>,
    (sampleWorld 0)\<lparr>clock := 6,
       trace := [apiRequest ''old-token'' ''/playlists/p1/tracks?offset=0&limit=100'' ''GET'' None,
                 apiRequest ''old-token'' ''/me/tracks/contains?ids=t1,t2'' ''GET'' None]\<rparr>)"
  by (simp add: handleToolCall_def fetch_tracks_def fetchTracksParser_def z_required_def z_optional_def
        z_string_def z_number_def sampleEnv_def Let_def num_or_def
        spotifyApiRequest_def getValidAccessToken_def sampleSession_def fetch_def
        sampleWorld_def sampleUpstream_def apiRequest_def SPOTIFY_API_BASE_def
        playlistTracksEndpoint_def containsEndpoint_def sampleTrack_def
        string_of_int_0 string_of_int_100 reply_def ok_def enumerate_eq_zip
        string_of_nat_digit)

lemma sample_search_limit_zero:
  "handleToolCall sampleEnv ''alice'' ''search''
     (Some [''query'' \<mapsto> JStr ''jazz'', ''limit'' \<mapsto> JNum 0]) (sampleWorld 0) =
   (Inr \<lparr>content_text = ''Found 1 results for '' @ [CHR 0x22] @ ''jazz'' @ [CHR 0x22] @ ''.'',
         structuredContent = Some (SearchContent ''jazz''
            \<lparr>res_tracks = Some [foundTrack (sampleTrack ''t1'')], res_albums = None,
             res_artists = None, res_playlists = None\<rparr>),
         widget_meta = True\<rparr>,
    (sampleWorld 0)\<lparr>clock := 5,
       trace := [apiRequest ''old-token''
                   ''/search?q=jazz&type=track,album,artist,playlist&limit=20&market=US'' ''GET'' None]\<rparr>)"
  by (simp add: handleToolCall_def search_def searchParser_def z_required_def z_optional_def
        z_string_def z_number_def sampleEnv_def asciiLower_def Let_def num_or_def arr_or_def
        str_or_def spotifyApiRequest_def getValidAccessToken_def sampleSession_def fetch_def
        sampleWorld_def sampleUpstream_def apiRequest_def SPOTIFY_API_BASE_def searchEndpoint_def
        encodeURIComponent_def alphanumeric_def string_of_int_20 reply_def ok_def resultCount_def
        string_of_nat_digit)

text \<open>
  C9. The limit that \<open>search\<close> writes into its request is never 0, and it is 20 when the
  caller gave \<open>limit: 0\<close>; the request is the only Web API call of the tool. The limit
  that \<open>fetch_tracks\<close> writes into its playlist-page request is never 0, and it is 100 when
  the caller gave \<open>limit: 0\<close>; the page request is the first Web API call of the tool, and
  any later one is a saved-status call. (As in C5, no request is made when no access
  token can be obtained.)
\<close>

theorem limit_zero_takes_default:
  "(searchParser a = Inr sargs \<and> \<not> includes_str (toLowerCase e (query sargs)) ''audiobook'' \<longrightarrow>
      (\<exists>L. L \<noteq> 0 \<and> (search_limit sargs = Some 0 \<longrightarrow> L = 20) \<and>
         apiCalls w (snd (callTool e sid state ''search'' (Some a) w)) =
           (case fst (getValidAccessToken e sid w) of
              Inl err \<Rightarrow> []
            | Inr token \<Rightarrow>
                [apiRequest token
                   (searchEndpoint (query sargs) (arr_or (types sargs) [Track, Album, Artist, Playlist])
                      L (str_or (market sargs) ''US''))
                   ''GET'' None]))) \<and>
   (fetchTracksParser b = Inr fargs \<longrightarrow>
      (\<exists>L rest. L \<noteq> 0 \<and> (arg_limit fargs = Some 0 \<longrightarrow> L = 100) \<and>
         apiCalls w (snd (callTool e sid state ''fetch_tracks'' (Some b) w)) =
           (case fst (getValidAccessToken e sid w) of
              Inl err \<Rightarrow> []
            | Inr token \<Rightarrow>
                [apiRequest token
                   (playlistTracksEndpoint (playlistId fargs) (num_or (arg_offset fargs) 0) L)
                   ''GET'' None]) @ rest \<and>
         (\<forall>r \<in> set rest. \<exists>token ids. r = apiRequest token (containsEndpoint ids) ''GET'' None)))"
proof (intro conjI impI)
  assume s: "searchParser a = Inr sargs \<and> \<not> includes_str (toLowerCase e (query sargs)) ''audiobook''"
  have "num_or (search_limit sargs) 20 \<noteq> 0 \<and>
        (search_limit sargs = Some 0 \<longrightarrow> num_or (search_limit sargs) 20 = 20)"
    by (simp add: num_or_def split: option.splits)
  with search_apiCalls [of a sargs e w sid state] s
  show "\<exists>L. L \<noteq> 0 \<and> (search_limit sargs = Some 0 \<longrightarrow> L = 20) \<and>
         apiCalls w (snd (callTool e sid state ''search'' (Some a) w)) =
           (case fst (getValidAccessToken e sid w) of
              Inl err \<Rightarrow> []
            | Inr token \<Rightarrow>
                [apiRequest token
                   (searchEndpoint (query sargs) (arr_or (types sargs) [Track, Album, Artist, Playlist])
                      L (str_or (market sargs) ''US''))
                   ''GET'' None])"
    by blast
next
  assume f: "fetchTracksParser b = Inr fargs"
  have "num_or (arg_limit fargs) 100 \<noteq> 0 \<and>
        (arg_limit fargs = Some 0 \<longrightarrow> num_or (arg_limit fargs) 100 = 100)"
    by (simp add: num_or_def split: option.splits)
  with fetch_tracks_apiCalls [OF f, of w e sid state]
  show "\<exists>L rest. L \<noteq> 0 \<and> (arg_limit fargs = Some 0 \<longrightarrow> L = 100) \<and>
         apiCalls w (snd (callTool e sid state ''fetch_tracks'' (Some b) w)) =
           (case fst (getValidAccessToken e sid w) of
              Inl err \<Rightarrow> []
            | Inr token \<Rightarrow>
                [apiRequest token
                   (playlistTracksEndpoint (playlistId fargs) (num_or (arg_offset fargs) 0) L)
                   ''GET'' None]) @ rest \<and>
         (\<forall>r \<in> set rest. \<exists>token ids. r = apiRequest token (containsEndpoint ids) ''GET'' None)"
    by blast
qed

theorem limit_zero_takes_default_witness:
  "searchParser [''query'' \<mapsto> JStr ''jazz'', ''limit'' \<mapsto> JNum 0] =
     Inr \<lparr>query = ''jazz'', types = None, search_limit = Some 0, market = None\<rparr> \<and>
   \<not> includes_str (toLowerCase sampleEnv ''jazz'') ''audiobook'' \<and>
   apiCalls (sampleWorld 0)
     (snd (callTool sampleEnv ''alice'' ''5f2c'' ''search''
             (Some [''query'' \<mapsto> JStr ''jazz'', ''limit'' \<mapsto> JNum 0]) (sampleWorld 0))) =
     [apiRequest ''old-token'' ''/search?q=jazz&type=track,album,artist,playlist&limit=20&market=US''
        ''GET'' None] \<and>
   fetchTracksParser [''playlistId'' \<mapsto> JStr ''p1'', ''limit'' \<mapsto> JNum 0] =
     Inr \<lparr>playlistId = ''p1'', arg_offset = None, arg_limit = Some 0\<rparr> \<and>
   apiCalls (sampleWorld 0)
     (snd (callTool sampleEnv ''alice'' ''5f2c'' ''fetch_tracks''
             (Some [''playlistId'' \<mapsto> JStr ''p1'', ''limit'' \<mapsto> JNum 0]) (sampleWorld 0))) =
     [apiRequest ''old-token'' ''/playlists/p1/tracks?offset=0&limit=100'' ''GET'' None,
      apiRequest ''old-token'' ''/me/tracks/contains?ids=t1,t2'' ''GET'' None]"
proof -
  have p: "searchParser [''query'' \<mapsto> JStr ''jazz'', ''limit'' \<mapsto> JNum 0] =
             Inr \<lparr>query = ''jazz'', types = None, search_limit = Some 0, market = None\<rparr> \<and>
           \<not> includes_str (toLowerCase sampleEnv ''jazz'') ''audiobook'' \<and>
           fetchTracksParser [''playlistId'' \<mapsto> JStr ''p1'', ''limit'' \<mapsto> JNum 0] =
             Inr \<lparr>playlistId = ''p1'', arg_offset = None, arg_limit = Some 0\<rparr>"
    by (simp add: searchParser_def fetchTracksParser_def z_required_def z_optional_def
          z_string_def z_number_def sampleEnv_def asciiLower_def)
  have c: "apiCalls (sampleWorld 0)
             (snd (callTool sampleEnv ''alice'' ''5f2c'' ''search''
                     (Some [''query'' \<mapsto> JStr ''jazz'', ''limit'' \<mapsto> JNum 0]) (sampleWorld 0))) =
             [apiRequest ''old-token'' ''/search?q=jazz&type=track,album,artist,playlist&limit=20&market=US''
                ''GET'' None] \<and>
           apiCalls (sampleWorld 0)
             (snd (callTool sampleEnv ''alice'' ''5f2c'' ''fetch_tracks''
                     (Some [''playlistId'' \<mapsto> JStr ''p1'', ''limit'' \<mapsto> JNum 0]) (sampleWorld 0))) =
             [apiRequest ''old-token'' ''/playlists/p1/tracks?offset=0&limit=100'' ''GET'' None,
              apiRequest ''old-token'' ''/me/tracks/contains?ids=t1,t2'' ''GET'' None]"
    unfolding callTool_apiCalls
    by (simp add: sample_search_limit_zero sample_fetch_tracks apiCalls_def newCalls_def
          sample_trace)
  from limit_zero_takes_default [of "[''query'' \<mapsto> JStr ''jazz'', ''limit'' \<mapsto> JNum 0]"
      "\<lparr>query = ''jazz'', types = None, search_limit = Some 0, market = None\<rparr>" sampleEnv
      "sampleWorld 0" "''alice''" "''5f2c''" "[''playlistId'' \<mapsto> JStr ''p1'', ''limit'' \<mapsto> JNum 0]"
      "\<lparr>playlistId = ''p1'', arg_offset = None, arg_limit = Some 0\<rparr>"] p c
  show ?thesis by blast
qed

lemma fetchedTrack_fields:
  "is_saved (fetchedTrack saved (i, item)) = at_index saved i"
  "ft_id (fetchedTrack saved (i, item)) = track_id item"
  by (simp_all add: fetchedTrack_def)

text \<open>
  C4. When \<open>fetch_tracks\<close> succeeds, its playlist-page call returned some \<open>items\<close>, its
  saved-status call (made for the ids of those items, in their order) returned some
  array \<open>saved\<close>, and the result holds one projected track per item: the track at
  position \<open>i\<close> is the projection of \<open>items[i]\<close>, and its \<open>is_saved\<close> is \<open>saved[i]\<close>
  (\<open>undefined\<close>, here \<open>None\<close>, where \<open>saved\<close> is shorter). The hypothesis is a successful
  run of the tool, in the worker's \<open>handleToolCall\<close> or in the server's handler for a
  caller that has a session.
\<close>

theorem fetch_tracks_zips_saved_status:
  assumes "handleToolCall e sid ''fetch_tracks'' (Some a) w = (Inr r, w') \<or>
           (authSessions w sid \<noteq> None \<and>
            callTool e sid state ''fetch_tracks'' (Some a) w = (Inr r, w'))"
  shows "\<exists>args items total' w1 saved tracks.
           fetchTracksParser a = Inr args \<and>
           spotifyApiRequest e sid
             (playlistTracksEndpoint (playlistId args) (num_or (arg_offset args) 0)
                (num_or (arg_limit args) 100)) ''GET'' None w =
             (Inr (Some (PlaylistPage items total')), w1) \<and>
           spotifyApiRequest e sid (containsEndpoint (map track_id items)) ''GET'' None w1 =
             (Inr (Some (SavedStatus saved)), w') \<and>
           structuredContent r = Some (FetchTracksContent (playlistId args) tracks total') \<and>
           length tracks = length items \<and>
           (\<forall>i < length items.
              is_saved (tracks ! i) = at_index saved i \<and> ft_id (tracks ! i) = track_id (items ! i))"
proof -
  from assms have "handleToolCall e sid ''fetch_tracks'' (Some a) w = (Inr r, w')"
    by (auto simp: callTool_authenticated)
  then have ft: "fetch_tracks e sid a w = (Inr r, w')"
    by (simp add: handleToolCall_fetch_tracks)
  then obtain args where p: "fetchTracksParser a = Inr args"
    by (cases "fetchTracksParser a") (simp_all add: fetch_tracks_def)
  let ?ep = "playlistTracksEndpoint (playlistId args) (num_or (arg_offset args) 0)
               (num_or (arg_limit args) 100)"
  obtain r1 w1 where c1: "spotifyApiRequest e sid ?ep ''GET'' None w = (r1, w1)"
    by (cases "spotifyApiRequest e sid ?ep ''GET'' None w")
  from ft p c1 obtain items total' where r1: "r1 = Inr (Some (PlaylistPage items total'))"
    by (auto simp: fetch_tracks_def Let_def split: sum.splits option.splits payload.splits)
  let ?ep2 = "containsEndpoint (map track_id items)"
  obtain r2 w2 where c2: "spotifyApiRequest e sid ?ep2 ''GET'' None w1 = (r2, w2)"
    by (cases "spotifyApiRequest e sid ?ep2 ''GET'' None w1")
  from ft p c1 r1 c2 obtain saved where r2: "r2 = Inr (Some (SavedStatus saved))"
    by (auto simp: fetch_tracks_def Let_def split: sum.splits option.splits payload.splits)
  let ?tracks = "map (fetchedTrack saved) (enumerate 0 items)"
  from ft p c1 r1 c2 r2
  have res: "w' = w2"
      "structuredContent r = Some (FetchTracksContent (playlistId args) ?tracks total')"
    by (auto simp: fetch_tracks_def Let_def)
  have len: "length ?tracks = length items" by simp
  have nth: "\<forall>i < length items.
               is_saved (?tracks ! i) = at_index saved i \<and> ft_id (?tracks ! i) = track_id (items ! i)"
    by (simp add: nth_enumerate_eq fetchedTrack_fields)
  from p c1 r1 c2 r2 res len nth show ?thesis by blast
qed

theorem fetch_tracks_zips_saved_status_witness:
  "handleToolCall sampleEnv ''alice'' ''fetch_tracks''
     (Some [''playlistId'' \<mapsto> JStr ''p1'', ''limit'' \<mapsto> JNum 0]) (sampleWorld 0) =
   (Inr \<lparr>content_text = ''Loaded 2 tracks from playlist.'',
         structuredContent = Some (FetchTracksContent ''p1''
            [fetchedTrack [True, False] (0, sampleTrack ''t1''),
             fetchedTrack [True, False] (1, sampleTrack ''t2'')] 2),
         widget_meta = False\<rparr>,
    (sampleWorld 0)\<lparr>clock := 6,
       trace := [apiRequest ''old-token'' ''/playlists/p1/tracks?offset=0&limit=100'' ''GET'' None,
                 apiRequest ''old-token'' ''/me/tracks/contains?ids=t1,t2'' ''GET'' None]\<rparr>) \<and>
   is_saved (fetchedTrack [True, False] (0, sampleTrack ''t1'')) = Some True \<and>
   is_saved (fetchedTrack [True, False] (1, sampleTrack ''t2'')) = Some False"
proof -
  have ev: ?thesis
    by (simp add: sample_fetch_tracks fetchedTrack_fields at_index_def)
  from fetch_tracks_zips_saved_status [OF disjI1, OF sample_fetch_tracks] ev
  show ?thesis by blast
qed

section \<open>Following and unfollowing an artist\<close>

lemma libraryParser_artist:
  assumes "a ''itemType'' = Some (JStr ''artist'')" and "a ''itemId'' = Some (JStr x)"
  shows "addToLibraryParser a = Inr \<lparr>itemType = Artist, itemId = x\<rparr>"
    and "removeFromLibraryParser a = Inr \<lparr>itemType = Artist, itemId = x\<rparr>"
  using assms
  by (simp_all add: addToLibraryParser_def removeFromLibraryParser_def z_required_def
        z_item_type_def z_string_def)

lemma add_to_library_artist_world:
  assumes "a ''itemType'' = Some (JStr ''artist'')" and "a ''itemId'' = Some (JStr x)"
  shows "snd (add_to_library e sid a w) =
           snd (spotifyApiRequest e sid ''/me/following?type=artist'' ''PUT''
                  (Some (JObj [(''ids'', JArr [JStr x])])) w)"
  by (simp add: add_to_library_def libraryParser_artist [OF assms] split: prod.splits sum.splits)

lemma remove_from_library_artist_world:
  assumes "a ''itemType'' = Some (JStr ''artist'')" and "a ''itemId'' = Some (JStr x)"
  shows "snd (remove_from_library e sid a w) =
           snd (spotifyApiRequest e sid ''/me/following?type=artist'' ''DELETE''
                  (Some (JObj [(''ids'', JArr [JStr x])])) w)"
  by (simp add: remove_from_library_def libraryParser_artist [OF assms] split: prod.splits sum.splits)

lemma followRequest_eq:
  "apiRequest token ''/me/following?type=artist'' method (Some (JObj [(''ids'', JArr [JStr x])])) =
   followRequest token method x"
  by (simp add: apiRequest_def followRequest_def SPOTIFY_API_BASE_def)

lemma library_artist_trace:
  assumes "a ''itemType'' = Some (JStr ''artist'')" and "a ''itemId'' = Some (JStr x)"
  shows "trace (snd (handleToolCall e sid ''add_to_library'' (Some a) w)) =
           trace (snd (getValidAccessToken e sid w)) @
           (case fst (getValidAccessToken e sid w) of
              Inl err \<Rightarrow> []
            | Inr token \<Rightarrow> [followRequest token ''PUT'' x])"
    and "trace (snd (handleToolCall e sid ''remove_from_library'' (Some a) w)) =
           trace (snd (getValidAccessToken e sid w)) @
           (case fst (getValidAccessToken e sid w) of
              Inl err \<Rightarrow> []
            | Inr token \<Rightarrow> [followRequest token ''DELETE'' x])"
proof -
  have h1: "handleToolCall e sid ''add_to_library'' (Some a) w = add_to_library e sid a w"
    by (simp add: handleToolCall_def)
  have h2: "handleToolCall e sid ''remove_from_library'' (Some a) w = remove_from_library e sid a w"
    by (simp add: handleToolCall_def)
  show "trace (snd (handleToolCall e sid ''add_to_library'' (Some a) w)) =
           trace (snd (getValidAccessToken e sid w)) @
           (case fst (getValidAccessToken e sid w) of
              Inl err \<Rightarrow> []
            | Inr token \<Rightarrow> [followRequest token ''PUT'' x])"
    by (simp only: h1 add_to_library_artist_world [OF assms] spotifyApiRequest_trace followRequest_eq)
  show "trace (snd (handleToolCall e sid ''remove_from_library'' (Some a) w)) =
           trace (snd (getValidAccessToken e sid w)) @
           (case fst (getValidAccessToken e sid w) of
              Inl err \<Rightarrow> []
            | Inr token \<Rightarrow> [followRequest token ''DELETE'' x])"
    by (simp only: h2 remove_from_library_artist_world [OF assms] spotifyApiRequest_trace
          followRequest_eq)
qed

lemma library_artist_no_token:
  assumes "a ''itemType'' = Some (JStr ''artist'')" and "a ''itemId'' = Some (JStr x)"
    and "getValidAccessToken e sid w = (Inl err, w1)"
  shows "handleToolCall e sid ''add_to_library'' (Some a) w = (Inl err, w1)"
    and "handleToolCall e sid ''remove_from_library'' (Some a) w = (Inl err, w1)"
  using assms(3)
  by (simp_all add: handleToolCall_def add_to_library_def remove_from_library_def
        libraryParser_artist [OF assms(1,2)] spotifyApiRequest_failed)

text \<open>
  C8, as the code has it. For a caller with a session \<open>s\<close>, \<open>add_to_library\<close> and
  \<open>remove_from_library\<close> with \<open>itemType\<close> \<open>"artist"\<close> and \<open>itemId\<close> \<open>x\<close>:
  \<^item> while the stored token has not expired, the call makes exactly one request, the
    \<open>PUT\<close> (for \<open>remove_from_library\<close> the \<open>DELETE\<close>) of \<open>/me/following?type=artist\<close> with
    the body \<open>{"ids": [x]}\<close>, under the stored token;
  \<^item> once it has expired, the call first makes the refresh request. When the token
    endpoint grants a token, the same \<open>PUT\<close> or \<open>DELETE\<close> follows under the new token
    and nothing else. When the token endpoint answers with a status outside 200 to 299,
    the call throws \<open>Failed to refresh token\<close> with the status text, and the refresh
    request is the only request it has made.
\<close>

theorem library_artist_follow:
  assumes "authSessions w sid = Some s"
    and "a ''itemType'' = Some (JStr ''artist'')" and "a ''itemId'' = Some (JStr x)"
  shows "(clock w < expiresAt s \<longrightarrow>
            newCalls w (snd (callTool e sid state ''add_to_library'' (Some a) w)) =
              [followRequest (accessToken s) ''PUT'' x] \<and>
            newCalls w (snd (callTool e sid state ''remove_from_library'' (Some a) w)) =
              [followRequest (accessToken s) ''DELETE'' x]) \<and>
         (expiresAt s \<le> clock w \<longrightarrow>
            (\<forall>resp dt td.
               upstream e (trace w) (refreshRequest e (refreshToken s)) = (resp, dt) \<and> ok resp \<and>
               payload resp = TokenData td \<longrightarrow>
               newCalls w (snd (callTool e sid state ''add_to_library'' (Some a) w)) =
                 [refreshRequest e (refreshToken s), followRequest (access_token td) ''PUT'' x] \<and>
               newCalls w (snd (callTool e sid state ''remove_from_library'' (Some a) w)) =
                 [refreshRequest e (refreshToken s), followRequest (access_token td) ''DELETE'' x]) \<and>
            (\<forall>resp dt.
               upstream e (trace w) (refreshRequest e (refreshToken s)) = (resp, dt) \<and> \<not> ok resp \<longrightarrow>
               fst (callTool e sid state ''add_to_library'' (Some a) w) =
                 Inl (Error (''Failed to refresh token: '' @ statusText resp)) \<and>
               newCalls w (snd (callTool e sid state ''add_to_library'' (Some a) w)) =
                 [refreshRequest e (refreshToken s)] \<and>
               fst (callTool e sid state ''remove_from_library'' (Some a) w) =
                 Inl (Error (''Failed to refresh token: '' @ statusText resp)) \<and>
               newCalls w (snd (callTool e sid state ''remove_from_library'' (Some a) w)) =
                 [refreshRequest e (refreshToken s)]))"
proof -
  have auth: "authSessions w sid \<noteq> None" using assms(1) by simp
  note ct = callTool_authenticated [OF auth]
  note tr = library_artist_trace [OF assms(2,3), of e sid w]
  have fresh: "clock w < expiresAt s \<longrightarrow>
            newCalls w (snd (callTool e sid state ''add_to_library'' (Some a) w)) =
              [followRequest (accessToken s) ''PUT'' x] \<and>
            newCalls w (snd (callTool e sid state ''remove_from_library'' (Some a) w)) =
              [followRequest (accessToken s) ''DELETE'' x]"
    using tr by (auto simp: ct getValidAccessToken_fresh [OF assms(1)] newCalls_def)
  have granted: "expiresAt s \<le> clock w \<longrightarrow>
            (\<forall>resp dt td.
               upstream e (trace w) (refreshRequest e (refreshToken s)) = (resp, dt) \<and> ok resp \<and>
               payload resp = TokenData td \<longrightarrow>
               newCalls w (snd (callTool e sid state ''add_to_library'' (Some a) w)) =
                 [refreshRequest e (refreshToken s), followRequest (access_token td) ''PUT'' x] \<and>
               newCalls w (snd (callTool e sid state ''remove_from_library'' (Some a) w)) =
                 [refreshRequest e (refreshToken s), followRequest (access_token td) ''DELETE'' x])"
  proof (intro impI allI)
    fix resp dt td
    assume exp: "expiresAt s \<le> clock w"
      and up: "upstream e (trace w) (refreshRequest e (refreshToken s)) = (resp, dt) \<and> ok resp \<and>
               payload resp = TokenData td"
    from up have g: "getValidAccessToken e sid w =
           (Inr (access_token td),
            w\<lparr>authSessions := (authSessions w)(sid \<mapsto>
                  s\<lparr>accessToken := access_token td,
                    expiresAt := clock w + int dt + expires_in td * 1000\<rparr>),
              clock := clock w + int dt,
              trace := trace w @ [refreshRequest e (refreshToken s)]\<rparr>)"
      using getValidAccessToken_refreshed [OF assms(1) exp, of e resp dt td] by simp
    from tr show "newCalls w (snd (callTool e sid state ''add_to_library'' (Some a) w)) =
                 [refreshRequest e (refreshToken s), followRequest (access_token td) ''PUT'' x] \<and>
               newCalls w (snd (callTool e sid state ''remove_from_library'' (Some a) w)) =
                 [refreshRequest e (refreshToken s), followRequest (access_token td) ''DELETE'' x]"
      by (simp add: ct g newCalls_def)
  qed
  have refused: "expiresAt s \<le> clock w \<longrightarrow>
            (\<forall>resp dt.
               upstream e (trace w) (refreshRequest e (refreshToken s)) = (resp, dt) \<and> \<not> ok resp \<longrightarrow>
               fst (callTool e sid state ''add_to_library'' (Some a) w) =
                 Inl (Error (''Failed to refresh token: '' @ statusText resp)) \<and>
               newCalls w (snd (callTool e sid state ''add_to_library'' (Some a) w)) =
                 [refreshRequest e (refreshToken s)] \<and>
               fst (callTool e sid state ''remove_from_library'' (Some a) w) =
                 Inl (Error (''Failed to refresh token: '' @ statusText resp)) \<and>
               newCalls w (snd (callTool e sid state ''remove_from_library'' (Some a) w)) =
                 [refreshRequest e (refreshToken s)])"
  proof (intro impI allI)
    fix resp dt
    assume exp: "expiresAt s \<le> clock w"
      and up: "upstream e (trace w) (refreshRequest e (refreshToken s)) = (resp, dt) \<and> \<not> ok resp"
    from up have g: "getValidAccessToken e sid w =
           (Inl (Error (''Failed to refresh token: '' @ statusText resp)),
            w\<lparr>clock := clock w + int dt, trace := trace w @ [refreshRequest e (refreshToken s)]\<rparr>)"
      using getValidAccessToken_refused [OF assms(1) exp, of e resp dt] by simp
    from library_artist_no_token [OF assms(2,3) g]
    show "fst (callTool e sid state ''add_to_library'' (Some a) w) =
                 Inl (Error (''Failed to refresh token: '' @ statusText resp)) \<and>
               newCalls w (snd (callTool e sid state ''add_to_library'' (Some a) w)) =
                 [refreshRequest e (refreshToken s)] \<and>
               fst (callTool e sid state ''remove_from_library'' (Some a) w) =
                 Inl (Error (''Failed to refresh token: '' @ statusText resp)) \<and>
               newCalls w (snd (callTool e sid state ''remove_from_library'' (Some a) w)) =
                 [refreshRequest e (refreshToken s)]"
      by (simp add: ct newCalls_def)
  qed
  from fresh granted refused show ?thesis by blast
qed

lemma sample_follow_fresh:
  "callTool sampleEnv ''alice'' ''5f2c'' ''add_to_library''
     (Some [''itemType'' \<mapsto> JStr ''artist'', ''itemId'' \<mapsto> JStr ''X'']) (sampleWorld 0) =
   (Inr (textResult ''Successfully added artist to your library.''),
    (sampleWorld 0)\<lparr>clock := 3, trace := [followRequest ''old-token'' ''PUT'' ''X'']\<rparr>)"
  by (simp add: callTool_def handleToolCall_def add_to_library_def addToLibraryParser_def
        z_required_def z_item_type_def z_string_def spotifyApiRequest_def getValidAccessToken_def
        sampleWorld_def sampleSession_def sampleEnv_def fetch_def sampleUpstream_def apiRequest_def
        SPOTIFY_API_BASE_def reply_def ok_def followRequest_def)

lemma sample_unfollow_refreshed:
  "callTool sampleEnv ''alice'' ''5f2c'' ''remove_from_library''
     (Some [''itemType'' \<mapsto> JStr ''artist'', ''itemId'' \<mapsto> JStr ''X'']) (sampleWorld 1000) =
   (Inr (textResult ''Successfully removed artist from your library.''),
    (sampleWorld 1000)\<lparr>authSessions := [''alice'' \<mapsto>
           \<lparr>accessToken = ''new-token'', refreshToken = ''refresh-1'', expiresAt = 3601007\<rparr>],
       clock := 1010,
       trace := [refreshRequest sampleEnv ''refresh-1'', followRequest ''new-token'' ''DELETE'' ''X'']\<rparr>)"
  by (simp add: callTool_def handleToolCall_def remove_from_library_def removeFromLibraryParser_def
        z_required_def z_item_type_def z_string_def spotifyApiRequest_def getValidAccessToken_def
        refreshAccessToken_def refreshRequest_def tokenRequest_def
        sampleWorld_def sampleSession_def sampleEnv_def fetch_def sampleUpstream_def apiRequest_def
        SPOTIFY_API_BASE_def reply_def ok_def followRequest_def)

lemma sample_unfollow_refused:
  "callTool refusingEnv ''alice'' ''5f2c'' ''remove_from_library''
     (Some [''itemType'' \<mapsto> JStr ''artist'', ''itemId'' \<mapsto> JStr ''X'']) (sampleWorld 2000) =
   (Inl (Error ''Failed to refresh token: Bad Request''),
    (sampleWorld 2000)\<lparr>clock := 2001, trace := [refreshRequest refusingEnv ''refresh-1'']\<rparr>)"
  by (simp add: callTool_def handleToolCall_def remove_from_library_def removeFromLibraryParser_def
        z_required_def z_item_type_def z_string_def spotifyApiRequest_def getValidAccessToken_def
        refreshAccessToken_def refreshRequest_def tokenRequest_def
        sampleWorld_def sampleSession_def sampleEnv_def refusingEnv_def fetch_def reply_def ok_def)

theorem library_artist_follow_witness:
  "newCalls (sampleWorld 0)
     (snd (callTool sampleEnv ''alice'' ''5f2c'' ''add_to_library''
             (Some [''itemType'' \<mapsto> JStr ''artist'', ''itemId'' \<mapsto> JStr ''X'']) (sampleWorld 0))) =
     [followRequest ''old-token'' ''PUT'' ''X''] \<and>
   newCalls (sampleWorld 1000)
     (snd (callTool sampleEnv ''alice'' ''5f2c'' ''remove_from_library''
             (Some [''itemType'' \<mapsto> JStr ''artist'', ''itemId'' \<mapsto> JStr ''X'']) (sampleWorld 1000))) =
     [refreshRequest sampleEnv ''refresh-1'', followRequest ''new-token'' ''DELETE'' ''X''] \<and>
   callTool refusingEnv ''alice'' ''5f2c'' ''remove_from_library''
     (Some [''itemType'' \<mapsto> JStr ''artist'', ''itemId'' \<mapsto> JStr ''X'']) (sampleWorld 2000) =
     (Inl (Error ''Failed to refresh token: Bad Request''),
      (sampleWorld 2000)\<lparr>clock := 2001, trace := [refreshRequest refusingEnv ''refresh-1'']\<rparr>)"
proof -
  have ev: ?thesis
    by (simp add: sample_follow_fresh sample_unfollow_refreshed sample_unfollow_refused
          newCalls_def sample_trace)
  from library_artist_follow [of "sampleWorld 0" "''alice''" sampleSession
         "[''itemType'' \<mapsto> JStr ''artist'', ''itemId'' \<mapsto> JStr ''X'']" "''X''" sampleEnv "''5f2c''"]
       library_artist_follow [of "sampleWorld 1000" "''alice''" sampleSession
         "[''itemType'' \<mapsto> JStr ''artist'', ''itemId'' \<mapsto> JStr ''X'']" "''X''" sampleEnv "''5f2c''"]
       library_artist_follow [of "sampleWorld 2000" "''alice''" sampleSession
         "[''itemType'' \<mapsto> JStr ''artist'', ''itemId'' \<mapsto> JStr ''X'']" "''X''" refusingEnv "''5f2c''"]
       sample_session ev
  show ?thesis by blast
qed

text \<open>
  Two runs for a caller whose token expired at time 1000, at time 1000. With a Spotify
  that grants the refresh, \<open>add_to_library\<close> makes two requests, the refresh and then
  the \<open>PUT\<close>. With a Spotify that refuses it, the only request is the \<open>POST\<close> to the
  token endpoint and the call fails.
\<close>

theorem library_artist_follow_counterexample:
  "authSessions (sampleWorld 1000) ''alice'' = Some sampleSession \<and>
   callTool sampleEnv ''alice'' ''5f2c'' ''add_to_library''
     (Some [''itemType'' \<mapsto> JStr ''artist'', ''itemId'' \<mapsto> JStr ''X'']) (sampleWorld 1000) =
     (Inr (textResult ''Successfully added artist to your library.''),
      (sampleWorld 1000)\<lparr>authSessions := [''alice'' \<mapsto>
           \<lparr>accessToken = ''new-token'', refreshToken = ''refresh-1'', expiresAt = 3601007\<rparr>],
         clock := 1010,
         trace := [refreshRequest sampleEnv ''refresh-1'', followRequest ''new-token'' ''PUT'' ''X'']\<rparr>) \<and>
   callTool refusingEnv ''alice'' ''5f2c'' ''add_to_library''
     (Some [''itemType'' \<mapsto> JStr ''artist'', ''itemId'' \<mapsto> JStr ''X'']) (sampleWorld 1000) =
     (Inl (Error ''Failed to refresh token: Bad Request''),
      (sampleWorld 1000)\<lparr>clock := 1001, trace := [refreshRequest refusingEnv ''refresh-1'']\<rparr>) \<and>
   req_method (refreshRequest refusingEnv ''refresh-1'') = ''POST'' \<and>
   req_url (refreshRequest refusingEnv ''refresh-1'') = ''https://accounts.spotify.com/api/token''"
  by (simp add: callTool_def handleToolCall_def add_to_library_def addToLibraryParser_def
        z_required_def z_item_type_def z_string_def spotifyApiRequest_def getValidAccessToken_def
        refreshAccessToken_def refreshRequest_def tokenRequest_def apiRequest_def followRequest_def
        SPOTIFY_API_BASE_def sampleUpstream_def
        sampleWorld_def sampleSession_def sampleEnv_def refusingEnv_def fetch_def reply_def ok_def)

section \<open>The OAuth callback: rejections and the sweep\<close>

lemma handleAuthCallback_error:
  "present err \<Longrightarrow>
   handleAuthCallback e code state err w =
     (\<lparr>reply_status = 400, reply_contentType = Some ''text/html'',
       reply_body = authFailedPage (the err)\<rparr>, w)"
  by (cases err) (simp_all add: handleAuthCallback_def present_def)

lemma handleAuthCallback_missing:
  "\<not> present err \<Longrightarrow> \<not> present code \<or> \<not> present state \<Longrightarrow>
   handleAuthCallback e code state err w =
     (\<lparr>reply_status = 400, reply_contentType = None,
       reply_body = ''Missing code or state parameter''\<rparr>, w)"
  by (auto simp: handleAuthCallback_def present_def split: option.splits)

lemma handleAuthCallback_invalid:
  "\<not> present err \<Longrightarrow> code' \<noteq> [] \<Longrightarrow> state' \<noteq> [] \<Longrightarrow> pendingAuthStates w state' = None \<Longrightarrow>
   handleAuthCallback e (Some code') (Some state') err w =
     (\<lparr>reply_status = 400, reply_contentType = None,
       reply_body = ''Invalid or expired state parameter''\<rparr>, w)"
  by (simp add: handleAuthCallback_def)

text \<open>
  C6, as the code has it. A callback that carries an \<open>error\<close> parameter fails with the
  authentication-failed page, whether or not \<open>code\<close> and \<open>state\<close> are there. A callback
  without one fails with \<open>Missing code or state parameter\<close> when \<open>code\<close> or \<open>state\<close> is
  absent (or empty), and with \<open>Invalid or expired state parameter\<close> when both are there
  and \<open>state\<close> is not a key of \<open>pendingAuthStates\<close>. In all three cases the state is
  exactly as before: the token endpoint has not been called, and the session store and
  the pending authorizations are unchanged.
\<close>

theorem handleAuthCallback_rejects:
  "(present err \<longrightarrow>
      handleAuthCallback e code state err w =
        (\<lparr>reply_status = 400, reply_contentType = Some ''text/html'',
          reply_body = authFailedPage (the err)\<rparr>, w)) \<and>
   (\<not> present err \<and> (\<not> present code \<or> \<not> present state) \<longrightarrow>
      handleAuthCallback e code state err w =
        (\<lparr>reply_status = 400, reply_contentType = None,
          reply_body = ''Missing code or state parameter''\<rparr>, w)) \<and>
   (\<not> present err \<and> present code \<and> present state \<and> pendingAuthStates w (the state) = None \<longrightarrow>
      handleAuthCallback e code state err w =
        (\<lparr>reply_status = 400, reply_contentType = None,
          reply_body = ''Invalid or expired state parameter''\<rparr>, w))"
proof (intro conjI impI)
  assume "present err"
  then show "handleAuthCallback e code state err w =
        (\<lparr>reply_status = 400, reply_contentType = Some ''text/html'',
          reply_body = authFailedPage (the err)\<rparr>, w)"
    by (rule handleAuthCallback_error)
next
  assume "\<not> present err \<and> (\<not> present code \<or> \<not> present state)"
  then show "handleAuthCallback e code state err w =
        (\<lparr>reply_status = 400, reply_contentType = None,
          reply_body = ''Missing code or state parameter''\<rparr>, w)"
    by (simp add: handleAuthCallback_missing)
next
  assume a: "\<not> present err \<and> present code \<and> present state \<and> pendingAuthStates w (the state) = None"
  then obtain code' state' where "code = Some code'" "state = Some state'" "code' \<noteq> []" "state' \<noteq> []"
    by (auto simp: present_def split: option.splits)
  with a show "handleAuthCallback e code state err w =
        (\<lparr>reply_status = 400, reply_contentType = None,
          reply_body = ''Invalid or expired state parameter''\<rparr>, w)"
    by (simp add: handleAuthCallback_invalid)
qed

theorem handleAuthCallback_rejects_witness:
  "handleAuthCallback sampleEnv None (Some ''state-bob'') None (sampleWorld 5) =
     (\<lparr>reply_status = 400, reply_contentType = None,
       reply_body = ''Missing code or state parameter''\<rparr>, sampleWorld 5) \<and>
   handleAuthCallback sampleEnv (Some ''code-1'') (Some ''never-issued'') None (sampleWorld 5) =
     (\<lparr>reply_status = 400, reply_contentType = None,
       reply_body = ''Invalid or expired state parameter''\<rparr>, sampleWorld 5) \<and>
   handleAuthCallback sampleEnv None None (Some ''access_denied'') (sampleWorld 5) =
     (\<lparr>reply_status = 400, reply_contentType = Some ''text/html'',
       reply_body = authFailedPage ''access_denied''\<rparr>, sampleWorld 5)"
  using handleAuthCallback_rejects [of None sampleEnv None "Some ''state-bob''" "sampleWorld 5"]
        handleAuthCallback_rejects [of None sampleEnv "Some ''code-1''" "Some ''never-issued''" "sampleWorld 5"]
        handleAuthCallback_rejects [of "Some ''access_denied''" sampleEnv None None "sampleWorld 5"]
  by (simp add: present_def sampleWorld_def)

text \<open>
  A callback as Spotify sends it when the user denies access: \<open>error=access_denied\<close>, the
  \<open>state\<close>, and no \<open>code\<close>. The reply is the authentication-failed page, not the
  missing-parameter message.
\<close>

theorem handleAuthCallback_rejects_counterexample:
  "handleAuthCallback sampleEnv None (Some ''state-bob'') (Some ''access_denied'') (sampleWorld 5) =
     (\<lparr>reply_status = 400, reply_contentType = Some ''text/html'',
       reply_body = authFailedPage ''access_denied''\<rparr>, sampleWorld 5) \<and>
   authFailedPage ''access_denied'' \<noteq> ''Missing code or state parameter''"
  by (simp add: handleAuthCallback_def present_def authFailedPage_def)

lemma sweepPending_old:
  "sweepPending now m key = Some value \<Longrightarrow> now - createdAt value \<le> 10 * 60 * 1000"
  by (auto simp: sweepPending_def split: option.splits if_splits)

lemma exchangeCodeForToken_stores:
  "pendingAuthStates (snd (exchangeCodeForToken e code w)) = pendingAuthStates w \<and>
   authSessions (snd (exchangeCodeForToken e code w)) = authSessions w"
  by (auto simp: exchangeCodeForToken_def fetch_def split: prod.splits payload.splits)

lemma handleAuthCallback_pending:
  assumes "\<not> present err" and "code' \<noteq> []" and "state' \<noteq> []"
    and "pendingAuthStates w state' = Some p"
  shows "pendingAuthStates (snd (handleAuthCallback e (Some code') (Some state') err w)) =
           (case fst (exchangeCodeForToken e code'
                        (w\<lparr>pendingAuthStates := sweepPending (clock w) (pendingAuthStates w)\<rparr>)) of
              Inl error \<Rightarrow> sweepPending (clock w) (pendingAuthStates w)
            | Inr tokenData \<Rightarrow> (sweepPending (clock w) (pendingAuthStates w))(state' := None))"
proof -
  let ?w1 = "w\<lparr>pendingAuthStates := sweepPending (clock w) (pendingAuthStates w)\<rparr>"
  obtain r w2 where x: "exchangeCodeForToken e code' ?w1 = (r, w2)"
    by (cases "exchangeCodeForToken e code' ?w1")
  have "pendingAuthStates w2 = sweepPending (clock w) (pendingAuthStates w)"
    using exchangeCodeForToken_stores [of e code' ?w1] x by simp
  with assms x show ?thesis
    by (cases r) (simp_all add: handleAuthCallback_def Let_def)
qed

text \<open>
  C7, as the code has it. The sweep runs only in a callback that gets past the three
  checks: no \<open>error\<close> parameter, \<open>code\<close> and \<open>state\<close> present, and \<open>state\<close> a key of
  \<open>pendingAuthStates\<close>. After such a callback, whichever pending authorization it was
  for and whether or not the token exchange succeeded, every entry left in
  \<open>pendingAuthStates\<close> was created at most ten minutes before the time the handler read
  for the sweep (\<open>clock w\<close>, its \<open>Date.now()\<close> before the exchange). A callback that one
  of the checks rejects leaves \<open>pendingAuthStates\<close> as it was.
\<close>

theorem handleAuthCallback_sweeps:
  "(\<not> present err \<and> present code \<and> present state \<and> pendingAuthStates w (the state) \<noteq> None \<longrightarrow>
      (\<forall>key value.
          pendingAuthStates (snd (handleAuthCallback e code state err w)) key = Some value \<longrightarrow>
          clock w - createdAt value \<le> 10 * 60 * 1000)) \<and>
   (present err \<or> \<not> present code \<or> \<not> present state \<or> pendingAuthStates w (the state) = None \<longrightarrow>
      pendingAuthStates (snd (handleAuthCallback e code state err w)) = pendingAuthStates w)"
proof (intro conjI impI allI)
  fix key entry
  assume a: "\<not> present err \<and> present code \<and> present state \<and> pendingAuthStates w (the state) \<noteq> None"
    and k: "pendingAuthStates (snd (handleAuthCallback e code state err w)) key = Some entry"
  from a obtain code' state' p where cs: "code = Some code'" "state = Some state'"
      "code' \<noteq> []" "state' \<noteq> []" "pendingAuthStates w state' = Some p"
    by (auto simp: present_def split: option.splits)
  from a have ne: "\<not> present err" by simp
  from handleAuthCallback_pending [OF ne cs(3,4,5), of e] k cs
  have "sweepPending (clock w) (pendingAuthStates w) key = Some entry"
    by (auto split: sum.splits if_splits)
  then show "clock w - createdAt entry \<le> 10 * 60 * 1000" by (rule sweepPending_old)
next
  assume r: "present err \<or> \<not> present code \<or> \<not> present state \<or> pendingAuthStates w (the state) = None"
  show "pendingAuthStates (snd (handleAuthCallback e code state err w)) = pendingAuthStates w"
  proof (cases "present err")
    case True
    then show ?thesis by (simp add: handleAuthCallback_error)
  next
    case False
    show ?thesis
    proof (cases "present code \<and> present state")
      case False
      with \<open>\<not> present err\<close> show ?thesis by (simp add: handleAuthCallback_missing)
    next
      case True
      then obtain code' state' where cs: "code = Some code'" "state = Some state'"
          "code' \<noteq> []" "state' \<noteq> []"
        by (auto simp: present_def split: option.splits)
      with r True \<open>\<not> present err\<close> have "pendingAuthStates w state' = None" by simp
      with cs \<open>\<not> present err\<close> show ?thesis by (simp add: handleAuthCallback_invalid)
    qed
  qed
qed

theorem handleAuthCallback_sweeps_witness:
  "pendingAuthStates (snd (handleAuthCallback refusingEnv (Some ''code-1'') (Some ''state-carol'') None sweepWorld))
     ''state-carol'' = Some \<lparr>sessionId = ''carol'', createdAt = 650000\<rparr> \<and>
   pendingAuthStates (snd (handleAuthCallback refusingEnv (Some ''code-1'') (Some ''state-carol'') None sweepWorld))
     ''state-bob'' = None \<and>
   clock sweepWorld - 650000 \<le> 10 * 60 * 1000 \<and>
   pendingAuthStates (snd (handleAuthCallback refusingEnv (Some ''code-1'') None None sweepWorld)) =
     pendingAuthStates sweepWorld"
proof -
  have ev: "pendingAuthStates
              (snd (handleAuthCallback refusingEnv (Some ''code-1'') (Some ''state-carol'') None sweepWorld))
              ''state-carol'' = Some \<lparr>sessionId = ''carol'', createdAt = 650000\<rparr> \<and>
            pendingAuthStates
              (snd (handleAuthCallback refusingEnv (Some ''code-1'') (Some ''state-carol'') None sweepWorld))
              ''state-bob'' = None"
    by (simp add: present_def sweepWorld_def handleAuthCallback_def Let_def sweepPending_def
          exchangeCodeForToken_def fetch_def refusingEnv_def sampleEnv_def reply_def ok_def)
  have pr: "\<not> present None" "present (Some ''code-1'')" "present (Some ''state-carol'')"
      "pendingAuthStates sweepWorld (the (Some ''state-carol'')) \<noteq> None"
    by (simp_all add: present_def sweepWorld_def)
  from handleAuthCallback_sweeps [of None "Some ''code-1''" "Some ''state-carol''" sweepWorld refusingEnv]
       pr ev
  have "clock sweepWorld - createdAt \<lparr>sessionId = ''carol'', createdAt = 650000\<rparr> \<le> 10 * 60 * 1000"
    by blast
  moreover
  from handleAuthCallback_sweeps [of None "Some ''code-1''" None sweepWorld refusingEnv]
  have "pendingAuthStates (snd (handleAuthCallback refusingEnv (Some ''code-1'') None None sweepWorld)) =
          pendingAuthStates sweepWorld"
    by (simp add: present_def)
  ultimately show ?thesis using ev by simp
qed

text \<open>
  A callback with a state that was never issued, at time 700000: it is rejected, and the
  pending authorization created at time 0 is still in the store.
\<close>

theorem handleAuthCallback_sweeps_counterexample:
  "handleAuthCallback sampleEnv (Some ''code-1'') (Some ''never-issued'') None sweepWorld =
     (\<lparr>reply_status = 400, reply_contentType = None,
       reply_body = ''Invalid or expired state parameter''\<rparr>, sweepWorld) \<and>
   pendingAuthStates
     (snd (handleAuthCallback sampleEnv (Some ''code-1'') (Some ''never-issued'') None sweepWorld))
     ''state-bob'' = Some \<lparr>sessionId = ''bob'', createdAt = 0\<rparr> \<and>
   clock (snd (handleAuthCallback sampleEnv (Some ''code-1'') (Some ''never-issued'') None sweepWorld))
     - 0 > 10 * 60 * 1000"
  by (simp add: handleAuthCallback_def present_def sweepWorld_def)

end
